theory Spec2Isabelle
  imports Main "HOL-Library.List_Lexorder" "HOL-Library.Char_ord"
begin

section \<open>JavaScript values\<close>

text \<open>
  The server (\<^verbatim>\<open>src/index.js\<close>) is an Express application with three handlers,
  \<^verbatim>\<open>POST /api/transcribe\<close>, \<^verbatim>\<open>POST /api/qa\<close> and \<^verbatim>\<open>POST /api/export\<close>.
  Request bodies and the answers of the hosted services are parsed JSON, so they
  are values of \<open>jsval\<close>.

  A string is the list of the bytes of its UTF-8 form. The handlers compare,
  split and search strings with ASCII texts only, which gives the same result on
  the bytes as on the characters; the one test of characters beyond ASCII, that
  of a header value, is written for the bytes (\<open>header_char_ok\<close>).

  A number is represented by the text \<^verbatim>\<open>String(n)\<close> prints for it (for instance
  \<^verbatim>\<open>5\<close>, \<^verbatim>\<open>-0.25\<close>, \<^verbatim>\<open>1e+21\<close>), which tells numbers apart up to the sign of
  zero: both zeros print as \<^verbatim>\<open>0\<close>. The handlers only test a number for
  truthiness and print it.

  An object is an association list in which the first binding of a key counts.
\<close>

datatype jsval =
    JUndefined
  | JNull
  | JBool bool
  | JNum string
  | JStr string
  | JArr "jsval list"
  | JObj "(string \<times> jsval) list"

text \<open>\<^verbatim>\<open>!v\<close> is \<open>\<not> truthy v\<close>; \<^verbatim>\<open>a || b\<close> is \<open>js_or a b\<close>.\<close>

fun truthy :: "jsval \<Rightarrow> bool" where
  "truthy JUndefined = False"
| "truthy JNull = False"
| "truthy (JBool b) = b"
| "truthy (JNum s) = (s \<noteq> ''0'' \<and> s \<noteq> ''NaN'')"
| "truthy (JStr s) = (s \<noteq> [])"
| "truthy (JArr xs) = True"
| "truthy (JObj kvs) = True"

definition js_or :: "jsval \<Rightarrow> jsval \<Rightarrow> jsval" where
  "js_or a b = (if truthy a then a else b)"

text \<open>
  \<open>get_prop v k\<close> reads the property \<^verbatim>\<open>v.k\<close> of a value that is neither
  \<^verbatim>\<open>undefined\<close> nor \<^verbatim>\<open>null\<close>. It is used for the keys the handlers read
  (\<^verbatim>\<open>youtubeUrl\<close>, \<^verbatim>\<open>question\<close>, \<^verbatim>\<open>transcript\<close>, \<^verbatim>\<open>type\<close>, \<^verbatim>\<open>content\<close>,
  \<^verbatim>\<open>filename\<close>, \<^verbatim>\<open>text\<close>, \<^verbatim>\<open>choices\<close>, \<^verbatim>\<open>message\<close>), none of which a
  primitive, an array or \<^verbatim>\<open>Object.prototype\<close> defines.
  \<open>opt_prop\<close> is the optional chain \<^verbatim>\<open>v?.k\<close> and \<open>opt_first_prop\<close> is
  \<^verbatim>\<open>v?.[0]?.k\<close>: the first element of an array or the property \<^verbatim>\<open>0\<close> of an
  object, then its property \<open>k\<close>; the first character of a string is a string,
  which has no such property, and so has no other value.
\<close>

fun get_prop :: "jsval \<Rightarrow> string \<Rightarrow> jsval" where
  "get_prop (JObj kvs) k = (case map_of kvs k of Some v \<Rightarrow> v | None \<Rightarrow> JUndefined)"
| "get_prop v k = JUndefined"

fun nullish :: "jsval \<Rightarrow> bool" where
  "nullish JUndefined = True"
| "nullish JNull = True"
| "nullish v = False"

definition opt_prop :: "jsval \<Rightarrow> string \<Rightarrow> jsval" where
  "opt_prop v k = (if nullish v then JUndefined else get_prop v k)"

fun opt_first_prop :: "jsval \<Rightarrow> string \<Rightarrow> jsval" where
  "opt_first_prop (JArr (x # xs)) k = opt_prop x k"
| "opt_first_prop (JObj kvs) k = opt_prop (get_prop (JObj kvs) ''0'') k"
| "opt_first_prop v k = JUndefined"

text \<open>
  A field of a request body, as the handlers read it:
  \<^verbatim>\<open>const { k } = req.body || {}\<close>.
\<close>

definition body_field :: "jsval \<Rightarrow> string \<Rightarrow> jsval" where
  "body_field reqBody k = get_prop (js_or reqBody (JObj [])) k"

text \<open>
  The field \<open>k\<close> is part of the JSON text that \<^verbatim>\<open>res.json\<close> writes for an object
  when the object binds it to a value other than \<^verbatim>\<open>undefined\<close>.
\<close>

definition field_present :: "string \<Rightarrow> jsval \<Rightarrow> bool" where
  "field_present k v = (get_prop v k \<noteq> JUndefined)"

subsection \<open>Strings\<close>

definition LF :: char where
  "LF = CHR 0x0A"

definition CR :: char where
  "CR = CHR 0x0D"

definition DQ :: char where
  "DQ = CHR 0x22"

text \<open>\<^verbatim>\<open>xs.join(sep)\<close> on an array of strings.\<close>

fun join_with :: "string \<Rightarrow> string list \<Rightarrow> string" where
  "join_with sep [] = []"
| "join_with sep [x] = x"
| "join_with sep (x # y # ys) = x @ sep @ join_with sep (y # ys)"

text \<open>
  What a template literal \<^verbatim>\<open>`${v}`\<close> prints; a number prints as the text that
  represents it. The conversion of an object that
  binds \<^verbatim>\<open>toString\<close> itself (to a value that cannot be called, as every parsed
  value is) throws a \<^verbatim>\<open>TypeError\<close>: the result is \<open>None\<close>. An array prints its
  elements, \<^verbatim>\<open>null\<close> and \<^verbatim>\<open>undefined\<close> as the empty text, separated by commas.
\<close>

fun js_toString :: "jsval \<Rightarrow> string option"
  and js_toStrings :: "jsval list \<Rightarrow> string list option" where
  "js_toString JUndefined = Some ''undefined''"
| "js_toString JNull = Some ''null''"
| "js_toString (JBool b) = Some (if b then ''true'' else ''false'')"
| "js_toString (JNum s) = Some s"
| "js_toString (JStr s) = Some s"
| "js_toString (JArr xs) = map_option (join_with '','') (js_toStrings xs)"
| "js_toString (JObj kvs) =
     (case map_of kvs ''toString'' of None \<Rightarrow> Some ''[object Object]'' | Some f \<Rightarrow> None)"
| "js_toStrings [] = Some []"
| "js_toStrings (x # xs) =
     (case (if nullish x then Some [] else js_toString x) of
        None \<Rightarrow> None
      | Some s \<Rightarrow> map_option ((#) s) (js_toStrings xs))"

text \<open>\<^verbatim>\<open>s.startsWith(p)\<close>, and the test of a regular expression that is a literal text.\<close>

fun starts_with :: "string \<Rightarrow> string \<Rightarrow> bool" where
  "starts_with [] s = True"
| "starts_with (p # ps) [] = False"
| "starts_with (p # ps) (c # cs) = (p = c \<and> starts_with ps cs)"

fun contains :: "string \<Rightarrow> string \<Rightarrow> bool" where
  "contains p [] = (p = [])"
| "contains p (c # cs) = (starts_with p (c # cs) \<or> contains p cs)"

definition lower :: "char \<Rightarrow> char" where
  "lower c = (let n = (of_char c :: nat) in if 65 \<le> n \<and> n \<le> 90 then char_of (n + 32) else c)"

text \<open>The test of a literal text under the flag \<^verbatim>\<open>i\<close>: letters \<^verbatim>\<open>A\<close> to \<^verbatim>\<open>Z\<close> fold.\<close>

definition contains_ci :: "string \<Rightarrow> string \<Rightarrow> bool" where
  "contains_ci p s = contains (map lower p) (map lower s)"

section \<open>The CSV export\<close>

text \<open>
  \<^verbatim>\<open>content.split(/\r?\n/).map((l) => `"${l.replace(/"/g, '""')}"`)\<close> and
  \<^verbatim>\<open>lines.join("\n")\<close> of the \<^verbatim>\<open>csv\<close> branch of \<^verbatim>\<open>POST /api/export\<close>.
  The expression \<^verbatim>\<open>/\r?\n/\<close> matches, leftmost first, a line feed together with a
  carriage return right before it; a carriage return alone stays in its line.
\<close>

fun split_lines :: "string \<Rightarrow> string list" where
  "split_lines [] = [[]]"
| "split_lines (c # cs) =
     (if c = CR \<and> cs \<noteq> [] \<and> hd cs = LF then [] # split_lines (tl cs)
      else if c = LF then [] # split_lines cs
      else (case split_lines cs of [] \<Rightarrow> [[c]] | l # ls \<Rightarrow> (c # l) # ls))"

definition double_quotes :: "string \<Rightarrow> string" where
  "double_quotes l = concat (map (\<lambda>c. if c = DQ then [DQ, DQ] else [c]) l)"

definition quote_line :: "string \<Rightarrow> string" where
  "quote_line l = [DQ] @ double_quotes l @ [DQ]"

definition csv_records :: "string \<Rightarrow> string list" where
  "csv_records content = map quote_line (split_lines content)"

definition csv_export :: "string \<Rightarrow> string" where
  "csv_export content = join_with [LF] (csv_records content)"

text \<open>
  Reading a record back, as a CSV reader does: the surrounding quotes are
  stripped and each doubled quote becomes one quote.
\<close>

fun collapse_quotes :: "string \<Rightarrow> string" where
  "collapse_quotes (a # b # cs) =
     (if a = DQ \<and> b = DQ then DQ # collapse_quotes cs else a # collapse_quotes (b # cs))"
| "collapse_quotes cs = cs"

definition unquote_record :: "string \<Rightarrow> string" where
  "unquote_record r = collapse_quotes (butlast (tl r))"

section \<open>Errors, the temporary directory and the external services\<close>

text \<open>
  A thrown or rejected value is an \<^verbatim>\<open>Error\<close> object with its \<^verbatim>\<open>name\<close> and
  \<^verbatim>\<open>message\<close>. \<open>error_toString\<close> is \<^verbatim>\<open>String(err)\<close>, and \<open>message_or_string\<close> is
  the expression the code uses three times to describe an error:
  \<^verbatim>\<open>(err && err.message) || String(err)\<close>, also written
  \<^verbatim>\<open>err?.message || String(err)\<close>.
\<close>

datatype jserror = JsError (err_name: string) (err_message: string)

definition new_Error :: "string \<Rightarrow> jserror" where
  "new_Error msg = JsError ''Error'' msg"

definition error_toString :: "jserror \<Rightarrow> string" where
  "error_toString e =
     (if err_name e = [] then err_message e
      else if err_message e = [] then err_name e
      else err_name e @ '': '' @ err_message e)"

definition message_or_string :: "jserror \<Rightarrow> string" where
  "message_or_string e = (if err_message e \<noteq> [] then err_message e else error_toString e)"

text \<open>
  Every path the server touches lies in \<^verbatim>\<open>TMP_DIR\<close> (the destination of the
  uploads, of the downloads and of the converted audio), so a path is the name of
  the file inside \<^verbatim>\<open>TMP_DIR\<close>, and \<^verbatim>\<open>path.join(TMP_DIR, name)\<close> is \<open>name\<close>.
  The state is the listing of \<^verbatim>\<open>TMP_DIR\<close> together with the calls made so far,
  in order. The request's \<^verbatim>\<open>id\<close> (a fresh \<^verbatim>\<open>uuidv4()\<close>) is the parameter \<open>rid\<close>.
\<close>

datatype event =
    YtdlValidateURL jsval
  | YtdlGetInfo jsval
  | YtdlStream jsval string
  | YtDlpRun jsval string
  | ReadDirSync
  | FfmpegSave string string "string list"
  | GroqTranscription string string
  | GroqChatCompletion "(string \<times> string) list" string
  | ExistsSync string
  | UnlinkSync string
  | ConsoleWarn string string
  | ConsoleError string jserror

record world =
  files :: "string list"
  trace :: "event list"

definition emit :: "event \<Rightarrow> world \<Rightarrow> world" where
  "emit e w = w\<lparr>trace := trace w @ [e]\<rparr>"

definition write_file :: "string \<Rightarrow> world \<Rightarrow> world" where
  "write_file f w = (if f \<in> set (files w) then w else w\<lparr>files := files w @ [f]\<rparr>)"

fun write_files :: "string list \<Rightarrow> world \<Rightarrow> world" where
  "write_files [] w = w"
| "write_files (f # fs) w = write_files fs (write_file f w)"

text \<open>
  What a run of an external tool that writes one output file ends in: it is done
  and the file is there, or it failed, leaving an incomplete file behind or not.
\<close>

datatype tool_result = Done | Failed jserror bool

text \<open>
  The libraries and services the server calls are parameters: \<open>validateURL\<close>,
  \<open>getInfo\<close> and \<open>ytdl_stream\<close> are ytdl-core; \<open>ytdlp\<close> is the optional module
  \<^verbatim>\<open>youtube-dl-exec\<close> (\<open>None\<close> when \<^verbatim>\<open>require\<close> failed and \<^verbatim>\<open>ytdlp = null\<close>),
  which answers with a possible failure and the files it left in \<^verbatim>\<open>TMP_DIR\<close>;
  \<open>ffmpeg_save\<close> is the ffmpeg run; \<open>groq_transcriptions\<close> and \<open>groq_chat\<close> are the
  hosted endpoints; \<open>unlink_error\<close> is the failure of \<^verbatim>\<open>fs.unlinkSync\<close> on an
  existing file, if any. A request calls each library and service at most once,
  so a function of the arguments covers every behaviour of theirs.
\<close>

record env =
  validateURL :: "jsval \<Rightarrow> bool"
  getInfo :: "jsval \<Rightarrow> jserror option"
  ytdl_stream :: "jsval \<Rightarrow> tool_result"
  ytdlp :: "(jsval \<Rightarrow> string \<Rightarrow> jserror option \<times> string list) option"
  ffmpeg_save :: "string \<Rightarrow> string \<Rightarrow> tool_result"
  groq_transcriptions :: "string \<Rightarrow> jserror + jsval"
  groq_chat :: "(string \<times> string) list \<Rightarrow> jserror + jsval"
  unlink_error :: "string \<Rightarrow> jserror option"

section \<open>The transcription pipeline\<close>

subsection \<open>\<^verbatim>\<open>convertToWav\<close>\<close>

definition WAV_OPTIONS :: "string list" where
  "WAV_OPTIONS = [''-vn'', ''-sn'', ''-y'', ''-ac 1'', ''-ar 16000'', ''-f wav'', ''-acodec pcm_s16le'']"

definition convertToWav :: "env \<Rightarrow> string \<Rightarrow> string \<Rightarrow> world \<Rightarrow> (jserror + string) \<times> world" where
  "convertToWav env inputPath outputPath w =
     (let w1 = emit (FfmpegSave inputPath outputPath WAV_OPTIONS) w in
      case ffmpeg_save env inputPath outputPath of
        Done \<Rightarrow> (Inr outputPath, write_file outputPath w1)
      | Failed err left \<Rightarrow> (Inl err, if left then write_file outputPath w1 else w1))"

subsection \<open>\<^verbatim>\<open>downloadYoutube\<close>\<close>

text \<open>The pattern \<^verbatim>\<open>/Could not extract functions/i\<close>.\<close>

definition decipherIssue :: "string \<Rightarrow> bool" where
  "decipherIssue msg = contains_ci ''Could not extract functions'' msg"

text \<open>
  The first \<^verbatim>\<open>try\<close> block: \<^verbatim>\<open>ytdl.getInfo\<close>, then the stream piped into
  \<^verbatim>\<open>mp4Path\<close>. The result is the error the block throws, if any.
\<close>

definition ytdl_core_download :: "env \<Rightarrow> jsval \<Rightarrow> string \<Rightarrow> world \<Rightarrow> jserror option \<times> world" where
  "ytdl_core_download env url mp4Path w =
     (let w1 = emit (YtdlGetInfo url) w in
      case getInfo env url of
        Some err \<Rightarrow> (Some err, w1)
      | None \<Rightarrow>
          (let w2 = emit (YtdlStream url mp4Path) w1 in
           case ytdl_stream env url of
             Done \<Rightarrow> (None, write_file mp4Path w2)
           | Failed err left \<Rightarrow> (Some err, if left then write_file mp4Path w2 else w2)))"

text \<open>
  The inner \<^verbatim>\<open>try\<close> block of the fallback: the yt-dlp run, then the search of
  \<^verbatim>\<open>TMP_DIR\<close> for a file whose name starts with \<^verbatim>\<open>`${id}.`\<close>; its \<^verbatim>\<open>catch\<close> wraps
  every error.
\<close>

text \<open>
  \<^verbatim>\<open>fs.readdirSync(TMP_DIR)\<close>: the names of the directory, which the system hands
  over sorted by their bytes.
\<close>

definition readdirSync :: "world \<Rightarrow> string list \<times> world" where
  "readdirSync w = (sort (remdups (files w)), emit ReadDirSync w)"

definition fallback_failed :: "jserror \<Rightarrow> jserror" where
  "fallback_failed e = new_Error (''yt-dlp fallback failed: '' @ message_or_string e)"

definition ytdlp_download ::
  "(jsval \<Rightarrow> string \<Rightarrow> jserror option \<times> string list) \<Rightarrow> jsval \<Rightarrow> string \<Rightarrow> world
     \<Rightarrow> (jserror + string) \<times> world" where
  "ytdlp_download run url rid w =
     (let outTemplate = rid @ ''.%(ext)s'';
          w1 = emit (YtDlpRun url outTemplate) w;
          w2 = write_files (snd (run url outTemplate)) w1 in
      case fst (run url outTemplate) of
        Some e \<Rightarrow> (Inl (fallback_failed e), w2)
      | None \<Rightarrow>
          (case readdirSync w2 of
             (names, w3) \<Rightarrow>
               (case find (starts_with (rid @ ''.'')) names of
                  None \<Rightarrow>
                    (Inl (fallback_failed (new_Error ''yt-dlp did not produce an output file'')), w3)
                | Some found \<Rightarrow> (Inr found, w3))))"

definition NO_FALLBACK_MESSAGE :: string where
  "NO_FALLBACK_MESSAGE =
     ''ytdl-core failed to download (signature change). Install/upgrade ytdl-core or add youtube-dl-exec (yt-dlp) as fallback.''"

definition downloadYoutube :: "env \<Rightarrow> jsval \<Rightarrow> string \<Rightarrow> world \<Rightarrow> (jserror + string) \<times> world" where
  "downloadYoutube env url rid w =
     (let w1 = emit (YtdlValidateURL url) w in
      if \<not> validateURL env url then (Inl (new_Error ''Invalid YouTube URL''), w1)
      else
        (let mp4Path = rid @ ''.mp4'' in
         case ytdl_core_download env url mp4Path w1 of
           (None, w2) \<Rightarrow> (Inr mp4Path, w2)
         | (Some err, w2) \<Rightarrow>
             (let msg = message_or_string err in
              if \<not> decipherIssue msg \<and> ytdlp env = None
              then (Inl (new_Error (''YouTube download failed: '' @ msg)), w2)
              else
                (case ytdlp env of
                   Some run \<Rightarrow> ytdlp_download run url rid w2
                 | None \<Rightarrow> (Inl (new_Error NO_FALLBACK_MESSAGE), w2)))))"

subsection \<open>\<^verbatim>\<open>transcribeWithGroq\<close>\<close>

definition transcribeWithGroq :: "env \<Rightarrow> string \<Rightarrow> world \<Rightarrow> (jserror + jsval) \<times> world" where
  "transcribeWithGroq env wavPath w =
     (groq_transcriptions env wavPath, emit (GroqTranscription wavPath ''whisper-large-v3-turbo'') w)"

subsection \<open>\<^verbatim>\<open>safeUnlink\<close>\<close>

text \<open>
  \<^verbatim>\<open>fs.existsSync\<close> never throws. \<^verbatim>\<open>fs.unlinkSync\<close> throws on a file that is not
  there, and where the environment refuses the removal. The warning
  \<^verbatim>\<open>console.warn("Failed to remove", filePath, e.message)\<close> is the event
  \<open>ConsoleWarn filePath (err_message e)\<close>.
\<close>

definition existsSync :: "string \<Rightarrow> world \<Rightarrow> bool \<times> world" where
  "existsSync p w = (p \<in> set (files w), emit (ExistsSync p) w)"

definition unlinkSync :: "env \<Rightarrow> string \<Rightarrow> world \<Rightarrow> (jserror + unit) \<times> world" where
  "unlinkSync env p w =
     (let w1 = emit (UnlinkSync p) w in
      if p \<notin> set (files w) then
        (Inl (JsError ''Error''
           (''ENOENT: no such file or directory, unlink '' @ [CHR 0x27] @ p @ [CHR 0x27])), w1)
      else
        (case unlink_error env p of
           Some e \<Rightarrow> (Inl e, w1)
         | None \<Rightarrow> (Inr (), w1\<lparr>files := removeAll p (files w1)\<rparr>)))"

text \<open>A path variable holds \<^verbatim>\<open>null\<close> (\<open>None\<close>) or a string; \<^verbatim>\<open>!filePath\<close> also holds of the empty string.\<close>

definition path_truthy :: "string option \<Rightarrow> bool" where
  "path_truthy p = (case p of None \<Rightarrow> False | Some s \<Rightarrow> s \<noteq> [])"

definition safeUnlink :: "env \<Rightarrow> string option \<Rightarrow> world \<Rightarrow> (jserror + unit) \<times> world" where
  "safeUnlink env filePath w =
     (case filePath of
        None \<Rightarrow> (Inr (), w)
      | Some p \<Rightarrow>
          if p = [] then (Inr (), w)
          else
            (case existsSync p w of
               (False, w1) \<Rightarrow> (Inr (), w1)
             | (True, w1) \<Rightarrow>
                 (case unlinkSync env p w1 of
                    (Inr u, w2) \<Rightarrow> (Inr (), w2)
                  | (Inl e, w2) \<Rightarrow> (Inr (), emit (ConsoleWarn p (err_message e)) w2))))"

section \<open>The handlers\<close>

text \<open>
  A response is the status, the headers the handler sets with \<^verbatim>\<open>res.setHeader\<close>
  (in order) and what it hands to \<^verbatim>\<open>res.json\<close>, \<^verbatim>\<open>res.send\<close> or the piped
  document. The encoders of the libraries are not interpreted:
  \<open>SendJsonStringify v\<close> is \<^verbatim>\<open>res.send(JSON.stringify(v))\<close>, \<open>PdfDocument t c\<close> is
  the pdfkit document with the underlined title \<open>t\<close> and the text \<open>c\<close> piped into
  the response, and \<open>DocxBuffer ps\<close> is the buffer \<^verbatim>\<open>Packer.toBuffer\<close> gives for the
  document with the paragraphs \<open>ps\<close>.
\<close>

datatype payload =
    Json jsval
  | Send jsval
  | SendJsonStringify jsval
  | PdfDocument jsval jsval
  | DocxBuffer "string list"

record response =
  status :: nat
  headers :: "(string \<times> string) list"
  payload :: payload

subsection \<open>\<^verbatim>\<open>POST /api/transcribe\<close>\<close>

text \<open>
  The request: \<^verbatim>\<open>req.body\<close> and the path of \<^verbatim>\<open>req.file\<close>, if multer stored an
  upload. The handler's variables that its \<^verbatim>\<open>finally\<close> block reads are the
  record \<open>locals\<close>.
\<close>

record transcribe_request =
  body :: jsval
  file_path :: "string option"

record locals =
  workingInputPath :: "string option"
  mp4Path :: "string option"
  wavPath :: "string option"

definition initial_locals :: locals where
  "initial_locals = \<lparr>workingInputPath = None, mp4Path = None, wavPath = None\<rparr>"

text \<open>
  The answer to a transcription:
  \<^verbatim>\<open>res.json({ id, text: transcription?.text || "", transcription })\<close>.
\<close>

definition transcribed :: "string \<Rightarrow> jsval \<Rightarrow> response" where
  "transcribed rid transcription =
     \<lparr>status = 200, headers = [],
      payload = Json (JObj [(''id'', JStr rid),
        (''text'', js_or (opt_prop transcription ''text'') (JStr [])),
        (''transcription'', transcription)])\<rparr>"

text \<open>The lines after the choice of the input: conversion, transcription, answer.\<close>

definition transcribe_pipeline ::
  "env \<Rightarrow> string \<Rightarrow> string \<Rightarrow> locals \<Rightarrow> world \<Rightarrow> (jserror + response) \<times> locals \<times> world" where
  "transcribe_pipeline env rid input l w =
     (let l1 = l\<lparr>wavPath := Some (rid @ ''.wav'')\<rparr> in
      case convertToWav env input (rid @ ''.wav'') w of
        (Inl err, w1) \<Rightarrow> (Inl err, l1, w1)
      | (Inr out, w1) \<Rightarrow>
          (case transcribeWithGroq env (rid @ ''.wav'') w1 of
             (Inl err, w2) \<Rightarrow> (Inl err, l1, w2)
           | (Inr transcription, w2) \<Rightarrow> (Inr (transcribed rid transcription), l1, w2)))"

definition NO_INPUT :: response where
  "NO_INPUT = \<lparr>status = 400, headers = [],
     payload = Json (JObj [(''error'', JStr ''Provide a YouTube URL or upload an audio file.'')])\<rparr>"

text \<open>The \<^verbatim>\<open>try\<close> block: the response it sends, or the error it throws.\<close>

definition transcribe_try ::
  "env \<Rightarrow> string \<Rightarrow> jsval \<Rightarrow> string option \<Rightarrow> locals \<Rightarrow> world
     \<Rightarrow> (jserror + response) \<times> locals \<times> world" where
  "transcribe_try env rid youtubeUrl uploadedFilePath l w =
     (if truthy youtubeUrl then
        (case downloadYoutube env youtubeUrl rid w of
           (Inl err, w1) \<Rightarrow> (Inl err, l, w1)
         | (Inr p, w1) \<Rightarrow> transcribe_pipeline env rid p (l\<lparr>workingInputPath := Some p\<rparr>) w1)
      else
        (case uploadedFilePath of
           None \<Rightarrow> (Inr NO_INPUT, l, w)
         | Some p \<Rightarrow>
             if p = [] then (Inr NO_INPUT, l, w)
             else transcribe_pipeline env rid p (l\<lparr>workingInputPath := uploadedFilePath\<rparr>) w))"

definition HINT :: string where
  "HINT = ''Try: npm i ytdl-core@latest. If it persists, install yt-dlp fallback: npm i youtube-dl-exec and rerun.''"

text \<open>The \<^verbatim>\<open>catch\<close> block.\<close>

definition transcribe_catch :: "jserror \<Rightarrow> world \<Rightarrow> response \<times> world" where
  "transcribe_catch err w =
     (let details = message_or_string err;
          hint = (if contains ''ytdl-core failed'' details then JStr HINT else JUndefined) in
      (\<lparr>status = 500, headers = [],
        payload = Json (JObj [(''error'', JStr ''Transcription failed''),
          (''details'', JStr details), (''hint'', hint)])\<rparr>,
       emit (ConsoleError ''/api/transcribe error:'' err) w))"

text \<open>
  The \<^verbatim>\<open>finally\<close> block: three calls in a row; a call that threw would end the
  block there.
\<close>

definition cleanup :: "env \<Rightarrow> locals \<Rightarrow> string option \<Rightarrow> world \<Rightarrow> (jserror + unit) \<times> world" where
  "cleanup env l uploadedFilePath w =
     (case safeUnlink env (mp4Path l) w of
        (Inl e, w1) \<Rightarrow> (Inl e, w1)
      | (Inr u, w1) \<Rightarrow>
          (case safeUnlink env (wavPath l) w1 of
             (Inl e, w2) \<Rightarrow> (Inl e, w2)
           | (Inr u, w2) \<Rightarrow> safeUnlink env uploadedFilePath w2))"

text \<open>
  The response chosen by the \<^verbatim>\<open>try\<close> and \<^verbatim>\<open>catch\<close> blocks, before the cleanup.
\<close>

definition transcribe_respond ::
  "env \<Rightarrow> string \<Rightarrow> transcribe_request \<Rightarrow> world \<Rightarrow> response \<times> locals \<times> world" where
  "transcribe_respond env rid req w =
     (let youtubeUrl = body_field (body req) ''youtubeUrl'';
          uploadedFilePath = file_path req in
      case transcribe_try env rid youtubeUrl uploadedFilePath initial_locals w of
        (Inr res, l, w1) \<Rightarrow> (res, l, w1)
      | (Inl err, l, w1) \<Rightarrow> (fst (transcribe_catch err w1), l, snd (transcribe_catch err w1)))"

text \<open>
  The whole handler: the response sent, whether the \<^verbatim>\<open>finally\<close> block threw
  (the handler's promise would reject), and the state it leaves.
\<close>

definition transcribe_handler ::
  "env \<Rightarrow> string \<Rightarrow> transcribe_request \<Rightarrow> world \<Rightarrow> response \<times> (jserror + unit) \<times> world" where
  "transcribe_handler env rid req w =
     (case transcribe_respond env rid req w of
        (res, l, w1) \<Rightarrow>
          (case cleanup env l (file_path req) w1 of
             (c, w2) \<Rightarrow> (res, c, w2)))"

subsection \<open>\<^verbatim>\<open>POST /api/qa\<close>\<close>

text \<open>
  The system message; its dash between \<^verbatim>\<open>3\<close> and \<^verbatim>\<open>6\<close> is the en dash, written
  here as the three bytes of its UTF-8 form.
\<close>

definition SYSTEM_PROMPT :: string where
  "SYSTEM_PROMPT =
     ''You are a professional teaching assistant. Answer strictly based on the provided transcript. If the transcript does not contain the answer, say: 'I don't know based on the transcript.' Produce a polished, executive-style response using GitHub-flavored markdown with a clear structure:''
     @ [LF, LF] @ ''# Title'' @ [LF] @ ''## Executive Summary'' @ [LF]
     @ ''- 3'' @ [CHR 0xE2, CHR 0x80, CHR 0x93] @ ''6 bullets'' @ [LF, LF]
     @ ''## Key Insights'' @ [LF] @ ''- Bulleted points'' @ [LF, LF]
     @ ''## Actionable Recommendations'' @ [LF] @ ''1. Numbered steps'' @ [LF, LF]
     @ ''## Notes'' @ [LF] @ ''- Assumptions, constraints, or caveats'' @ [LF, LF]
     @ ''Tone: concise, professional, and objective. No chit-chat.''"

definition CANNOT_CONVERT :: jserror where
  "CANNOT_CONVERT = JsError ''TypeError'' ''Cannot convert object to primitive value''"

text \<open>The template \<^verbatim>\<open>`Transcript:\n${transcript}\n\nQuestion: ${question}`\<close>.\<close>

definition user_prompt :: "jsval \<Rightarrow> jsval \<Rightarrow> jserror + string" where
  "user_prompt transcript question =
     (case js_toString transcript of
        None \<Rightarrow> Inl CANNOT_CONVERT
      | Some t \<Rightarrow>
          (case js_toString question of
             None \<Rightarrow> Inl CANNOT_CONVERT
           | Some q \<Rightarrow> Inr (''Transcript:'' @ [LF] @ t @ [LF, LF] @ ''Question: '' @ q)))"

definition qa_failed :: "jserror \<Rightarrow> world \<Rightarrow> response \<times> world" where
  "qa_failed err w =
     (\<lparr>status = 500, headers = [],
       payload = Json (JObj [(''error'', JStr ''QA failed''),
         (''details'', JStr (message_or_string err))])\<rparr>,
      emit (ConsoleError ''/api/qa error:'' err) w)"

text \<open>\<^verbatim>\<open>completion?.choices?.[0]?.message?.content || ""\<close>.\<close>

definition completion_answer :: "jsval \<Rightarrow> jsval" where
  "completion_answer completion =
     js_or (opt_prop (opt_first_prop (opt_prop completion ''choices'') ''message'') ''content'')
       (JStr [])"

definition qa_handler :: "env \<Rightarrow> jsval \<Rightarrow> world \<Rightarrow> response \<times> world" where
  "qa_handler env reqBody w =
     (let question = body_field reqBody ''question'';
          transcript = body_field reqBody ''transcript'' in
      if \<not> truthy question \<or> \<not> truthy transcript then
        (\<lparr>status = 400, headers = [],
          payload = Json (JObj [(''error'', JStr ''Missing 'question' or 'transcript' in body.'')])\<rparr>, w)
      else
        (case user_prompt transcript question of
           Inl err \<Rightarrow> qa_failed err w
         | Inr prompt \<Rightarrow>
             (let messages = [(''system'', SYSTEM_PROMPT), (''user'', prompt)];
                  w1 = emit (GroqChatCompletion messages ''openai/gpt-oss-20b'') w in
              case groq_chat env messages of
                Inl err \<Rightarrow> qa_failed err w1
              | Inr completion \<Rightarrow>
                  (\<lparr>status = 200, headers = [],
                    payload = Json (JObj [(''answer'', completion_answer completion)])\<rparr>, w1))))"

subsection \<open>\<^verbatim>\<open>POST /api/export\<close>\<close>

definition bad_request :: "string \<Rightarrow> response" where
  "bad_request msg = \<lparr>status = 400, headers = [], payload = Json (JObj [(''error'', JStr msg)])\<rparr>"

text \<open>
  The \<^verbatim>\<open>catch\<close> block: the headers set before the error was thrown stay on the
  response.
\<close>

definition export_failed :: "(string \<times> string) list \<Rightarrow> jserror \<Rightarrow> response" where
  "export_failed hs err =
     \<lparr>status = 500, headers = hs,
      payload = Json (JObj [(''error'', JStr ''Export failed''),
        (''details'', JStr (message_or_string err))])\<rparr>"

text \<open>
  \<^verbatim>\<open>res.setHeader(name, value)\<close> throws on a value with a character other than
  the tab and the characters from U+0020 to U+007E and from U+0080 to U+00FF.
  In UTF-8 a character up to U+00FF has bytes up to \<^verbatim>\<open>0xC3\<close> and every character
  beyond has a first byte from \<^verbatim>\<open>0xC4\<close>, so the test bears on the bytes. Each
  handler sets a header name once, so a new header is appended.
\<close>

definition header_char_ok :: "char \<Rightarrow> bool" where
  "header_char_ok c =
     (let n = (of_char c :: nat) in n = 9 \<or> (32 \<le> n \<and> n \<le> 126) \<or> (128 \<le> n \<and> n \<le> 195))"

definition INVALID_CHAR :: "string \<Rightarrow> jserror" where
  "INVALID_CHAR name =
     JsError ''TypeError'' (''Invalid character in header content ['' @ [DQ] @ name @ [DQ] @ '']'')"

definition setHeader ::
  "string \<Rightarrow> string \<Rightarrow> (string \<times> string) list \<Rightarrow> jserror + (string \<times> string) list" where
  "setHeader name v hs =
     (if list_all header_char_ok v then Inr (hs @ [(name, v)]) else Inl (INVALID_CHAR name))"

text \<open>
  The two headers of an attachment, in the order of the code:
  \<^verbatim>\<open>res.setHeader("Content-Type", ctype)\<close>, then the template
  \<^verbatim>\<open>`attachment; filename=${base}.ext`\<close>, then
  \<^verbatim>\<open>res.setHeader("Content-Disposition", ...)\<close>. The result is the headers set, or
  the headers set so far with the error thrown.
\<close>

definition attachment_headers ::
  "(string \<times> string) list \<Rightarrow> string \<Rightarrow> jsval \<Rightarrow> string
     \<Rightarrow> ((string \<times> string) list \<times> jserror) + (string \<times> string) list" where
  "attachment_headers hs ctype base ext =
     (case setHeader ''Content-Type'' ctype hs of
        Inl err \<Rightarrow> Inl (hs, err)
      | Inr h1 \<Rightarrow>
          (case js_toString base of
             None \<Rightarrow> Inl (h1, CANNOT_CONVERT)
           | Some b \<Rightarrow>
               (case setHeader ''Content-Disposition'' (''attachment; filename='' @ b @ ''.'' @ ext) h1 of
                  Inl err \<Rightarrow> Inl (h1, err)
                | Inr h2 \<Rightarrow> Inr h2)))"

text \<open>
  \<^verbatim>\<open>content.split\<close> is called on a truthy \<^verbatim>\<open>content\<close>; only a string has the
  method.
\<close>

definition NOT_A_FUNCTION :: jserror where
  "NOT_A_FUNCTION = JsError ''TypeError'' ''content.split is not a function''"

definition export_txt :: "jsval \<Rightarrow> jsval \<Rightarrow> response" where
  "export_txt base content =
     (case attachment_headers [] ''text/plain; charset=utf-8'' base ''txt'' of
        Inl (hs, err) \<Rightarrow> export_failed hs err
      | Inr hs \<Rightarrow> \<lparr>status = 200, headers = hs, payload = Send content\<rparr>)"

definition export_json :: "jsval \<Rightarrow> jsval \<Rightarrow> response" where
  "export_json base content =
     (case attachment_headers [] ''application/json'' base ''json'' of
        Inl (hs, err) \<Rightarrow> export_failed hs err
      | Inr hs \<Rightarrow>
          \<lparr>status = 200, headers = hs, payload = SendJsonStringify (JObj [(''content'', content)])\<rparr>)"

definition export_csv :: "jsval \<Rightarrow> jsval \<Rightarrow> response" where
  "export_csv base content =
     (case attachment_headers [] ''text/csv; charset=utf-8'' base ''csv'' of
        Inl (hs, err) \<Rightarrow> export_failed hs err
      | Inr hs \<Rightarrow>
          (case content of
             JStr s \<Rightarrow> \<lparr>status = 200, headers = hs, payload = Send (JStr (csv_export s))\<rparr>
           | _ \<Rightarrow> export_failed hs NOT_A_FUNCTION))"

definition export_pdf :: "jsval \<Rightarrow> jsval \<Rightarrow> response" where
  "export_pdf base content =
     (case attachment_headers [] ''application/pdf'' base ''pdf'' of
        Inl (hs, err) \<Rightarrow> export_failed hs err
      | Inr hs \<Rightarrow> \<lparr>status = 200, headers = hs, payload = PdfDocument base content\<rparr>)"

definition export_docx :: "jsval \<Rightarrow> jsval \<Rightarrow> response" where
  "export_docx base content =
     (case content of
        JStr s \<Rightarrow>
          (let paragraphs = split_lines s in
           case attachment_headers []
                  ''application/vnd.openxmlformats-officedocument.wordprocessingml.document''
                  base ''docx'' of
             Inl (hs, err) \<Rightarrow> export_failed hs err
           | Inr hs \<Rightarrow> \<lparr>status = 200, headers = hs, payload = DocxBuffer paragraphs\<rparr>)
      | _ \<Rightarrow> export_failed [] NOT_A_FUNCTION)"

definition export_handler :: "jsval \<Rightarrow> response" where
  "export_handler reqBody =
     (let type = body_field reqBody ''type'';
          content = body_field reqBody ''content'';
          filename = body_field reqBody ''filename'' in
      if \<not> truthy type \<or> \<not> truthy content then
        bad_request (''Missing 'type' or 'content'' @ [CHR 0x27])
      else
        (let base = js_or filename (JStr ''export'') in
         if type = JStr ''txt'' then export_txt base content
         else if type = JStr ''json'' then export_json base content
         else if type = JStr ''csv'' then export_csv base content
         else if type = JStr ''pdf'' then export_pdf base content
         else if type = JStr ''docx'' then export_docx base content
         else bad_request ''Unsupported type''))"

section \<open>Notions the properties are stated with\<close>

text \<open>The calls a run added to the trace of the state it started from.\<close>

definition new_events :: "world \<Rightarrow> world \<Rightarrow> event list" where
  "new_events w w' = drop (length (trace w)) (trace w')"

text \<open>The calls \<^verbatim>\<open>safeUnlink\<close> makes.\<close>

fun cleanup_event :: "event \<Rightarrow> bool" where
  "cleanup_event (ExistsSync p) = True"
| "cleanup_event (UnlinkSync p) = True"
| "cleanup_event (ConsoleWarn p m) = True"
| "cleanup_event e = False"

text \<open>The calls of \<^verbatim>\<open>console.warn\<close> and \<^verbatim>\<open>console.error\<close>.\<close>

fun console_event :: "event \<Rightarrow> bool" where
  "console_event (ConsoleWarn p m) = True"
| "console_event (ConsoleError p e) = True"
| "console_event e = False"

text \<open>The file an event converts or transcribes; the runs of the second download method.\<close>

fun media_input :: "event \<Rightarrow> string option" where
  "media_input (FfmpegSave i out opts) = Some i"
| "media_input (GroqTranscription p m) = Some p"
| "media_input e = None"

fun fallback_event :: "event \<Rightarrow> bool" where
  "fallback_event (YtDlpRun u t) = True"
| "fallback_event e = False"

text \<open>The error the first method (ytdl-core) fails with, if it fails.\<close>

definition primary_error :: "env \<Rightarrow> jsval \<Rightarrow> jserror option" where
  "primary_error env url =
     (case getInfo env url of
        Some err \<Rightarrow> Some err
      | None \<Rightarrow> (case ytdl_stream env url of Done \<Rightarrow> None | Failed err left \<Rightarrow> Some err))"

text \<open>
  The calls \<^verbatim>\<open>downloadYoutube\<close> makes, and the calls and the outcome of the
  conversion and transcription of a chosen input, read off the environment.
\<close>

definition download_events :: "env \<Rightarrow> jsval \<Rightarrow> string \<Rightarrow> event list" where
  "download_events env url rid =
     YtdlValidateURL url #
     (if \<not> validateURL env url then []
      else YtdlGetInfo url #
        (if getInfo env url = None then [YtdlStream url (rid @ ''.mp4'')] else []) @
        (case primary_error env url of
           None \<Rightarrow> []
         | Some err \<Rightarrow>
             (case ytdlp env of
                None \<Rightarrow> []
              | Some run \<Rightarrow>
                  YtDlpRun url (rid @ ''.%(ext)s'') #
                  (if fst (run url (rid @ ''.%(ext)s'')) = None then [ReadDirSync] else []))))"

definition pipeline_events :: "env \<Rightarrow> string \<Rightarrow> string \<Rightarrow> event list" where
  "pipeline_events env rid input =
     FfmpegSave input (rid @ ''.wav'') WAV_OPTIONS #
     (if ffmpeg_save env input (rid @ ''.wav'') = Done
      then [GroqTranscription (rid @ ''.wav'') ''whisper-large-v3-turbo''] else [])"

definition pipeline_result :: "env \<Rightarrow> string \<Rightarrow> string \<Rightarrow> jserror + response" where
  "pipeline_result env rid input =
     (case ffmpeg_save env input (rid @ ''.wav'') of
        Failed e left \<Rightarrow> Inl e
      | Done \<Rightarrow>
          (case groq_transcriptions env (rid @ ''.wav'') of
             Inl e \<Rightarrow> Inl e
           | Inr t \<Rightarrow> Inr (transcribed rid t)))"

text \<open>\<^verbatim>\<open>completion?.choices?.[0]?.message?.content\<close>, the content of a completion.\<close>

definition completion_content :: "jsval \<Rightarrow> jsval" where
  "completion_content completion =
     opt_prop (opt_first_prop (opt_prop completion ''choices'') ''message'') ''content''"

text \<open>
  The object a handler handed to \<^verbatim>\<open>res.json\<close> (\<^verbatim>\<open>undefined\<close> when it answered
  otherwise).
\<close>

fun json_of :: "payload \<Rightarrow> jsval" where
  "json_of (Json v) = v"
| "json_of p = JUndefined"

subsection \<open>Sample environments and requests\<close>

text \<open>
  An environment in which ytdl-core, ffmpeg and both endpoints succeed, the
  fallback module is not installed and every removal succeeds; and variations.
\<close>

definition env_ok :: env where
  "env_ok = \<lparr>validateURL = (\<lambda>u. True), getInfo = (\<lambda>u. None), ytdl_stream = (\<lambda>u. Done),
     ytdlp = None, ffmpeg_save = (\<lambda>i out. Done),
     groq_transcriptions = (\<lambda>p. Inr (JObj [(''text'', JStr ''hello'')])),
     groq_chat = (\<lambda>ms. Inr (JObj [(''choices'',
       JArr [JObj [(''message'', JObj [(''content'', JStr ''An answer'')])]])])),
     unlink_error = (\<lambda>p. None)\<rparr>"

definition env_unavailable :: env where
  "env_unavailable = env_ok\<lparr>getInfo := (\<lambda>u. Some (new_Error ''Video unavailable''))\<rparr>"

definition env_fallback :: env where
  "env_fallback = env_unavailable\<lparr>ytdlp := Some (\<lambda>u out. (None, [''r1.mp3'']))\<rparr>"

definition env_partial :: env where
  "env_partial = env_ok\<lparr>ytdl_stream := (\<lambda>u. Failed (new_Error ''Status code: 403'') True),
     ytdlp := Some (\<lambda>u out. (None, [''r1.mp3'']))\<rparr>"

definition env_fallback_fails :: env where
  "env_fallback_fails = env_unavailable\<lparr>ytdlp :=
     Some (\<lambda>u out. (Some (new_Error ''ERROR: Unable to download webpage''), []))\<rparr>"

definition env_ffmpeg_fails :: env where
  "env_ffmpeg_fails = env_ok\<lparr>ffmpeg_save := (\<lambda>i out. Failed (new_Error []) True)\<rparr>"

definition env_chat_fails :: env where
  "env_chat_fails = env_ok\<lparr>groq_chat := (\<lambda>ms. Inl (new_Error ''Connection error.''))\<rparr>"

definition env_locked :: env where
  "env_locked = env_ok\<lparr>unlink_error := (\<lambda>p. Some (new_Error ''EPERM: operation not permitted''))\<rparr>"

definition w0 :: world where
  "w0 = \<lparr>files = [], trace = []\<rparr>"

definition w_upload :: world where
  "w_upload = \<lparr>files = [''u7.ogg''], trace = []\<rparr>"

definition youtube_request :: transcribe_request where
  "youtube_request = \<lparr>body = JObj [(''youtubeUrl'', JStr ''https://youtu.be/abc'')], file_path = None\<rparr>"

definition both_request :: transcribe_request where
  "both_request = \<lparr>body = JObj [(''youtubeUrl'', JStr ''https://youtu.be/abc'')],
     file_path = Some ''u7.ogg''\<rparr>"

definition export_request :: jsval where
  "export_request = JObj [(''type'', JStr ''csv''), (''content'', JStr [CHR ''a'', LF, CHR ''b'']),
     (''filename'', JStr ''notes'')]"

definition bad_name_request :: jsval where
  "bad_name_request = JObj [(''type'', JStr ''txt''), (''content'', JStr ''a''),
     (''filename'', JStr [CHR ''m'', CHR ''y'', LF, CHR ''n''])]"

definition qa_request :: jsval where
  "qa_request = JObj [(''question'', JStr ''Why?''), (''transcript'', JStr ''Because.'')]"

section \<open>Properties of the CSV export\<close>

lemma split_lines_nonempty: "split_lines s \<noteq> []"
  by (induction s rule: split_lines.induct) (auto split: list.splits)

lemma collapse_other: "a \<noteq> DQ \<Longrightarrow> collapse_quotes (a # xs) = a # collapse_quotes xs"
  by (cases xs) simp_all

lemma collapse_double: "collapse_quotes (double_quotes l) = l"
  by (induction l) (simp_all add: double_quotes_def collapse_other)

lemma unquote_quote: "unquote_record (quote_line l) = l"
  by (simp add: unquote_record_def quote_line_def collapse_double)

lemma no_LF_lines: "l \<in> set (split_lines s) \<Longrightarrow> LF \<notin> set l"
  by (induction s arbitrary: l rule: split_lines.induct) (auto split: list.splits if_splits)

lemma split_lines_LF:
  "LF \<notin> set r \<Longrightarrow> r = [] \<or> last r \<noteq> CR \<Longrightarrow> split_lines (r @ LF # rest) = r # split_lines rest"
proof (induction r)
  case Nil
  then show ?case by (simp add: LF_def CR_def)
next
  case (Cons c r)
  then show ?case
    by (cases r) (auto simp: LF_def CR_def split: list.splits)
qed

lemma split_lines_CRLF:
  "LF \<notin> set r \<Longrightarrow> split_lines (r @ CR # LF # rest) = r # split_lines rest"
proof (induction r)
  case Nil
  then show ?case by (simp add: LF_def CR_def)
next
  case (Cons c r)
  then show ?case
    by (cases r) (auto simp: LF_def CR_def split: list.splits)
qed

lemma split_lines_single: "LF \<notin> set r \<Longrightarrow> split_lines r = [r]"
proof (induction r)
  case Nil
  then show ?case by simp
next
  case (Cons c r)
  then show ?case by (cases r) auto
qed

lemma split_join:
  "rs \<noteq> [] \<Longrightarrow> \<forall>r\<in>set rs. LF \<notin> set r \<and> (r = [] \<or> last r \<noteq> CR) \<Longrightarrow>
     split_lines (join_with [LF] rs) = rs"
proof (induction rs rule: induct_list012)
  case 1
  then show ?case by simp
next
  case (2 x)
  then show ?case by (simp add: split_lines_single)
next
  case (3 x y zs)
  then show ?case by (simp add: split_lines_LF)
qed

lemma quote_line_shape:
  "LF \<notin> set l \<Longrightarrow> LF \<notin> set (quote_line l) \<and> quote_line l \<noteq> [] \<and> last (quote_line l) \<noteq> CR"
  by (auto simp: quote_line_def double_quotes_def LF_def CR_def DQ_def)

lemma split_csv_export: "split_lines (csv_export c) = csv_records c"
  unfolding csv_export_def
  by (rule split_join) (auto simp: csv_records_def split_lines_nonempty dest: no_LF_lines quote_line_shape)

text \<open>
  C8. The csv export is the records joined by line feeds, one quoted record per
  line of the content; there are as many records as lines; reading each record
  back gives the lines; and the records are read off the export by the same
  split. A line never holds a line feed, and both a line feed and a carriage
  return followed by a line feed end a line.
\<close>

theorem csv_export_round_trip:
  "csv_export c = join_with [LF] (map quote_line (split_lines c))
   \<and> length (csv_records c) = length (split_lines c)
   \<and> map unquote_record (csv_records c) = split_lines c
   \<and> split_lines (csv_export c) = csv_records c
   \<and> (\<forall>l \<in> set (split_lines c). LF \<notin> set l)
   \<and> (\<forall>l rest. LF \<notin> set l \<longrightarrow> split_lines (l @ CR # LF # rest) = l # split_lines rest)
   \<and> (\<forall>l rest. LF \<notin> set l \<and> (l = [] \<or> last l \<noteq> CR) \<longrightarrow>
         split_lines (l @ LF # rest) = l # split_lines rest)"
proof -
  have 1: "csv_export c = join_with [LF] (map quote_line (split_lines c))"
    by (simp add: csv_export_def csv_records_def)
  have 2: "length (csv_records c) = length (split_lines c)"
    by (simp add: csv_records_def)
  have 3: "map unquote_record (csv_records c) = split_lines c"
    by (simp add: csv_records_def unquote_quote comp_def)
  have 4: "\<forall>l \<in> set (split_lines c). LF \<notin> set l"
    using no_LF_lines by blast
  show ?thesis
    using 1 2 3 4 split_csv_export split_lines_CRLF split_lines_LF by blast
qed

theorem csv_export_round_trip_witness:
  "csv_export [CHR ''a'', DQ, CHR ''b'', CR, LF, CHR ''c'', LF] =
     [DQ, CHR ''a'', DQ, DQ, CHR ''b'', DQ, LF, DQ, CHR ''c'', DQ, LF, DQ, DQ]
   \<and> split_lines [CHR ''a'', DQ, CHR ''b'', CR, LF, CHR ''c'', LF] = [[CHR ''a'', DQ, CHR ''b''], [CHR ''c''], []]
   \<and> map unquote_record (csv_records [CHR ''a'', DQ, CHR ''b'', CR, LF, CHR ''c'', LF]) =
       [[CHR ''a'', DQ, CHR ''b''], [CHR ''c''], []]
   \<and> split_lines ([CHR ''a''] @ CR # LF # [CHR ''c'']) = [CHR ''a''] # split_lines [CHR ''c'']"
proof -
  let ?c = "[CHR ''a'', DQ, CHR ''b'', CR, LF, CHR ''c'', LF]"
  have s: "split_lines ?c = [[CHR ''a'', DQ, CHR ''b''], [CHR ''c''], []]"
    by (simp add: LF_def CR_def DQ_def)
  have nl: "LF \<notin> set [CHR ''a'']"
    by (simp add: LF_def)
  note t = csv_export_round_trip [of ?c]
  from t have "csv_export ?c = join_with [LF] (map quote_line (split_lines ?c))"
    by blast
  then have 1: "csv_export ?c = [DQ, CHR ''a'', DQ, DQ, CHR ''b'', DQ, LF, DQ, CHR ''c'', DQ, LF, DQ, DQ]"
    by (simp only: s) (simp add: quote_line_def double_quotes_def DQ_def)
  from t have "map unquote_record (csv_records ?c) = split_lines ?c"
    by blast
  then have 2: "map unquote_record (csv_records ?c) = [[CHR ''a'', DQ, CHR ''b''], [CHR ''c''], []]"
    by (simp only: s)
  from t nl have 3: "split_lines ([CHR ''a''] @ CR # LF # [CHR ''c'']) = [CHR ''a''] # split_lines [CHR ''c'']"
    by blast
  show ?thesis using 1 2 3 s by blast
qed

section \<open>Traces and results of the pipeline\<close>

lemma trace_emit [simp]: "trace (emit e w) = trace w @ [e]"
  by (simp add: emit_def)

lemma files_emit [simp]: "files (emit e w) = files w"
  by (simp add: emit_def)

lemma trace_write_file [simp]: "trace (write_file f w) = trace w"
  by (simp add: write_file_def)

lemma trace_write_files [simp]: "trace (write_files fs w) = trace w"
  by (induction fs arbitrary: w) simp_all

lemma starts_with_append [simp]: "starts_with p (p @ s)"
  by (induction p) simp_all

lemma starts_with_prefix: "starts_with p s \<longleftrightarrow> (\<exists>t. s = p @ t)"
  by (induction p s rule: starts_with.induct) auto

subsection \<open>\<^verbatim>\<open>downloadYoutube\<close>\<close>

lemma ytdl_core_result: "fst (ytdl_core_download env url mp4 w) = primary_error env url"
  by (simp add: ytdl_core_download_def primary_error_def Let_def split: option.splits tool_result.splits)

lemma ytdl_core_trace:
  "trace (snd (ytdl_core_download env url mp4 w)) =
     trace w @ YtdlGetInfo url # (if getInfo env url = None then [YtdlStream url mp4] else [])"
  by (simp add: ytdl_core_download_def Let_def split: option.splits tool_result.splits)

lemma ytdlp_trace:
  "trace (snd (ytdlp_download run url rid w)) =
     trace w @ YtDlpRun url (rid @ ''.%(ext)s'') #
       (if fst (run url (rid @ ''.%(ext)s'')) = None then [ReadDirSync] else [])"
  by (simp add: ytdlp_download_def readdirSync_def Let_def split: option.splits)

lemma ytdlp_path:
  "fst (ytdlp_download run url rid w) = Inr p \<Longrightarrow> starts_with (rid @ ''.'') p"
  by (auto simp: ytdlp_download_def readdirSync_def Let_def find_Some_iff split: option.splits)

lemma download_trace:
  "trace (snd (downloadYoutube env url rid w)) = trace w @ download_events env url rid"
  by (cases "ytdl_core_download env url (rid @ ''.mp4'') (emit (YtdlValidateURL url) w)")
     (use ytdl_core_result [of env url "rid @ ''.mp4''" "emit (YtdlValidateURL url) w"]
          ytdl_core_trace [of env url "rid @ ''.mp4''" "emit (YtdlValidateURL url) w"]
      in \<open>auto simp: downloadYoutube_def download_events_def Let_def ytdlp_trace split: option.splits\<close>)

lemma download_path:
  "fst (downloadYoutube env url rid w) = Inr p \<Longrightarrow> starts_with (rid @ ''.'') p"
  by (cases "ytdl_core_download env url (rid @ ''.mp4'') (emit (YtdlValidateURL url) w)")
     (auto simp: downloadYoutube_def Let_def starts_with_prefix split: option.splits if_splits dest: ytdlp_path)

lemma download_invalid:
  "\<not> validateURL env url \<Longrightarrow> fst (downloadYoutube env url rid w) = Inl (new_Error ''Invalid YouTube URL'')"
  by (simp add: downloadYoutube_def Let_def)

lemma download_primary:
  "validateURL env url \<Longrightarrow> primary_error env url = None \<Longrightarrow>
     fst (downloadYoutube env url rid w) = Inr (rid @ ''.mp4'')"
  using ytdl_core_result [of env url "rid @ ''.mp4''" "emit (YtdlValidateURL url) w"]
  by (cases "ytdl_core_download env url (rid @ ''.mp4'') (emit (YtdlValidateURL url) w)")
     (simp add: downloadYoutube_def Let_def)

lemma download_no_fallback:
  "validateURL env url \<Longrightarrow> primary_error env url = Some err \<Longrightarrow> ytdlp env = None \<Longrightarrow>
     fst (downloadYoutube env url rid w) =
       Inl (new_Error (if decipherIssue (message_or_string err) then NO_FALLBACK_MESSAGE
                       else ''YouTube download failed: '' @ message_or_string err))"
  using ytdl_core_result [of env url "rid @ ''.mp4''" "emit (YtdlValidateURL url) w"]
  by (cases "ytdl_core_download env url (rid @ ''.mp4'') (emit (YtdlValidateURL url) w)")
     (simp add: downloadYoutube_def Let_def)

lemma fallback_in_download_events:
  "list_ex fallback_event (download_events env url rid) \<longleftrightarrow>
     validateURL env url \<and> primary_error env url \<noteq> None \<and> ytdlp env \<noteq> None"
  by (auto simp: download_events_def split: option.splits)

subsection \<open>Conversion and transcription\<close>

lemma pipeline_fst: "fst (transcribe_pipeline env rid input l w) = pipeline_result env rid input"
  by (simp add: transcribe_pipeline_def pipeline_result_def convertToWav_def
      transcribeWithGroq_def Let_def split: tool_result.splits sum.splits)

lemma pipeline_locals:
  "fst (snd (transcribe_pipeline env rid input l w)) = l\<lparr>wavPath := Some (rid @ ''.wav'')\<rparr>"
  by (simp add: transcribe_pipeline_def convertToWav_def
      transcribeWithGroq_def Let_def split: tool_result.splits sum.splits)

lemma pipeline_trace:
  "trace (snd (snd (transcribe_pipeline env rid input l w))) = trace w @ pipeline_events env rid input"
  by (simp add: transcribe_pipeline_def pipeline_events_def convertToWav_def
      transcribeWithGroq_def Let_def split: tool_result.splits sum.splits)

lemma status_pipeline: "pipeline_result env rid p = Inr res \<Longrightarrow> status res = 200"
  by (auto simp: pipeline_result_def transcribed_def split: tool_result.splits sum.splits)

subsection \<open>The \<^verbatim>\<open>try\<close> and \<^verbatim>\<open>catch\<close> blocks\<close>

lemma try_fst:
  "fst (transcribe_try env rid url up l w) =
     (if truthy url then
        (case fst (downloadYoutube env url rid w) of
           Inl e \<Rightarrow> Inl e
         | Inr p \<Rightarrow> pipeline_result env rid p)
      else (case up of None \<Rightarrow> Inr NO_INPUT
            | Some p \<Rightarrow> if p = [] then Inr NO_INPUT else pipeline_result env rid p))"
  by (cases "downloadYoutube env url rid w")
     (simp add: transcribe_try_def pipeline_fst split: sum.splits option.splits)

lemma try_trace:
  "trace (snd (snd (transcribe_try env rid url up l w))) = trace w @
     (if truthy url then
        download_events env url rid @
        (case fst (downloadYoutube env url rid w) of
           Inl e \<Rightarrow> []
         | Inr p \<Rightarrow> pipeline_events env rid p)
      else (case up of None \<Rightarrow> []
            | Some p \<Rightarrow> if p = [] then [] else pipeline_events env rid p))"
  using download_trace [of env url rid w]
  by (cases "downloadYoutube env url rid w")
     (simp add: transcribe_try_def pipeline_trace split: sum.splits option.splits)

lemma try_locals:
  "mp4Path (fst (snd (transcribe_try env rid url up l w))) = mp4Path l \<and>
   (wavPath (fst (snd (transcribe_try env rid url up l w))) = wavPath l \<or>
    wavPath (fst (snd (transcribe_try env rid url up l w))) = Some (rid @ ''.wav''))"
  by (cases "downloadYoutube env url rid w")
     (simp add: transcribe_try_def pipeline_locals split: sum.splits option.splits)

lemma respond_eq:
  "transcribe_respond env rid req w =
     (case transcribe_try env rid (body_field (body req) ''youtubeUrl'') (file_path req) initial_locals w of
        (Inr res, l, w1) \<Rightarrow> (res, l, w1)
      | (Inl err, l, w1) \<Rightarrow>
          (fst (transcribe_catch err w1), l, emit (ConsoleError ''/api/transcribe error:'' err) w1))"
  by (simp add: transcribe_respond_def transcribe_catch_def Let_def split: sum.splits prod.splits)

lemma respond_fst:
  "fst (transcribe_respond env rid req w) =
     (case fst (transcribe_try env rid (body_field (body req) ''youtubeUrl'') (file_path req)
          initial_locals w) of
        Inr res \<Rightarrow> res
      | Inl err \<Rightarrow> fst (transcribe_catch err w))"
  by (simp add: respond_eq transcribe_catch_def Let_def split: sum.splits prod.splits)

lemma respond_locals:
  "fst (snd (transcribe_respond env rid req w)) =
     fst (snd (transcribe_try env rid (body_field (body req) ''youtubeUrl'') (file_path req)
       initial_locals w))"
  by (simp add: respond_eq split: sum.splits prod.splits)

lemma respond_trace:
  "trace (snd (snd (transcribe_respond env rid req w))) =
     trace (snd (snd (transcribe_try env rid (body_field (body req) ''youtubeUrl'') (file_path req)
       initial_locals w))) @
     (case fst (transcribe_try env rid (body_field (body req) ''youtubeUrl'') (file_path req)
         initial_locals w) of
        Inl err \<Rightarrow> [ConsoleError ''/api/transcribe error:'' err] | Inr res \<Rightarrow> [])"
  by (simp add: respond_eq split: sum.splits prod.splits)

lemma respond_mp4Path: "mp4Path (fst (snd (transcribe_respond env rid req w))) = None"
  using try_locals [of env rid "body_field (body req) ''youtubeUrl''" "file_path req" initial_locals w]
  by (simp add: respond_locals initial_locals_def)

lemma status_catch: "status (fst (transcribe_catch err w)) = 500"
  by (simp add: transcribe_catch_def Let_def)

lemma respond_status:
  "status (fst (transcribe_respond env rid req w)) =
     (case fst (transcribe_try env rid (body_field (body req) ''youtubeUrl'') (file_path req)
         initial_locals w) of
        Inl err \<Rightarrow> 500
      | Inr res \<Rightarrow> status res)"
  by (simp add: respond_fst status_catch split: sum.splits)

lemma try_status_400:
  "(case fst (transcribe_try env rid url up l w) of Inl err \<Rightarrow> 500 | Inr res \<Rightarrow> status res) = (400::nat)
     \<longleftrightarrow> \<not> truthy url \<and> \<not> path_truthy up"
  by (auto simp: try_fst path_truthy_def NO_INPUT_def split: sum.splits option.splits dest: status_pipeline)

subsection \<open>\<^verbatim>\<open>safeUnlink\<close> and the \<^verbatim>\<open>finally\<close> block\<close>

lemma safeUnlink_eq:
  "safeUnlink env p w =
     (Inr (),
      (case p of
         None \<Rightarrow> w
       | Some f \<Rightarrow>
           if f = [] then w
           else if f \<notin> set (files w) then emit (ExistsSync f) w
           else
             (case unlink_error env f of
                Some e \<Rightarrow> emit (ConsoleWarn f (err_message e)) (emit (UnlinkSync f) (emit (ExistsSync f) w))
              | None \<Rightarrow> (emit (UnlinkSync f) (emit (ExistsSync f) w))\<lparr>files := removeAll f (files w)\<rparr>)))"
  by (auto simp: safeUnlink_def existsSync_def unlinkSync_def Let_def split: option.splits)

lemma safeUnlink_trace:
  "\<exists>cs. trace (snd (safeUnlink env p w)) = trace w @ cs \<and> list_all cleanup_event cs"
  by (simp add: safeUnlink_eq split: option.splits)

lemma safeUnlink_gone:
  "f \<noteq> [] \<Longrightarrow> f \<notin> set (files (snd (safeUnlink env (Some f) w))) \<or> unlink_error env f \<noteq> None"
  by (simp add: safeUnlink_eq split: option.splits)

lemma safeUnlink_first:
  "f \<noteq> [] \<Longrightarrow>
     \<exists>cs. trace (snd (safeUnlink env (Some f) w)) = trace w @ ExistsSync f # cs \<and> list_all cleanup_event cs"
  by (simp add: safeUnlink_eq split: option.splits)

lemma cleanup_fst: "fst (cleanup env l up w) = Inr ()"
  by (simp add: cleanup_def safeUnlink_eq)

lemma cleanup_snd:
  "snd (cleanup env l up w) =
     snd (safeUnlink env up (snd (safeUnlink env (wavPath l) (snd (safeUnlink env (mp4Path l) w)))))"
  by (simp add: cleanup_def safeUnlink_eq)

lemma cleanup_trace:
  "\<exists>cs. trace (snd (cleanup env l up w)) = trace w @ cs \<and> list_all cleanup_event cs"
proof -
  let ?w1 = "snd (safeUnlink env (mp4Path l) w)"
  let ?w2 = "snd (safeUnlink env (wavPath l) ?w1)"
  obtain c1 where 1: "trace ?w1 = trace w @ c1" "list_all cleanup_event c1"
    using safeUnlink_trace by blast
  obtain c2 where 2: "trace ?w2 = trace ?w1 @ c2" "list_all cleanup_event c2"
    using safeUnlink_trace by blast
  obtain c3 where 3: "trace (snd (safeUnlink env up ?w2)) = trace ?w2 @ c3" "list_all cleanup_event c3"
    using safeUnlink_trace by blast
  have "trace (snd (cleanup env l up w)) = trace w @ (c1 @ c2 @ c3)"
    by (simp add: cleanup_snd 1 2 3)
  moreover have "list_all cleanup_event (c1 @ c2 @ c3)"
    using 1 2 3 by simp
  ultimately show ?thesis by blast
qed

lemma cleanup_gone:
  "f \<noteq> [] \<Longrightarrow> f \<notin> set (files (snd (cleanup env l (Some f) w))) \<or> unlink_error env f \<noteq> None"
  using safeUnlink_gone [of f env] by (simp add: cleanup_snd)

lemma cleanup_checks:
  assumes f: "f \<noteq> []"
  shows "\<exists>c cs. trace (snd (cleanup env l (Some f) w)) = trace w @ c @ ExistsSync f # cs
    \<and> list_all cleanup_event c \<and> list_all cleanup_event cs"
proof -
  let ?w1 = "snd (safeUnlink env (mp4Path l) w)"
  let ?w2 = "snd (safeUnlink env (wavPath l) ?w1)"
  obtain c1 where 1: "trace ?w1 = trace w @ c1" "list_all cleanup_event c1"
    using safeUnlink_trace by blast
  obtain c2 where 2: "trace ?w2 = trace ?w1 @ c2" "list_all cleanup_event c2"
    using safeUnlink_trace by blast
  obtain c3 where 3: "trace (snd (safeUnlink env (Some f) ?w2)) = trace ?w2 @ ExistsSync f # c3"
    "list_all cleanup_event c3"
    using safeUnlink_first [OF f] by blast
  have "trace (snd (cleanup env l (Some f) w)) = trace w @ (c1 @ c2) @ ExistsSync f # c3"
    by (simp add: cleanup_snd 1 2 3)
  moreover have "list_all cleanup_event (c1 @ c2)"
    using 1 2 by simp
  ultimately show ?thesis using 3(2) by blast
qed

subsection \<open>The handler as a whole\<close>

lemma handler_fst: "fst (transcribe_handler env rid req w) = fst (transcribe_respond env rid req w)"
  by (simp add: transcribe_handler_def split: prod.splits)

lemma handler_uncaught: "fst (snd (transcribe_handler env rid req w)) = Inr ()"
  using cleanup_fst
  by (auto simp: transcribe_handler_def split: prod.splits)

lemma handler_world:
  "snd (snd (transcribe_handler env rid req w)) =
     snd (cleanup env (fst (snd (transcribe_respond env rid req w))) (file_path req)
       (snd (snd (transcribe_respond env rid req w))))"
  by (simp add: transcribe_handler_def split: prod.splits)

lemma handler_trace:
  "\<exists>cs. trace (snd (snd (transcribe_handler env rid req w))) =
     trace (snd (snd (transcribe_respond env rid req w))) @ cs \<and> list_all cleanup_event cs"
  by (simp add: handler_world cleanup_trace)

lemma write_file_keeps: "g \<in> set (files w) \<Longrightarrow> g \<in> set (files (write_file f w))"
  by (simp add: write_file_def)

lemma write_file_there: "f \<in> set (files (write_file f w))"
  by (simp add: write_file_def)

lemma find_in_set: "find P xs = Some x \<Longrightarrow> x \<in> set xs"
  by (induction xs) (auto split: if_splits)

lemma ytdlp_file_there:
  "fst (ytdlp_download run url rid w) = Inr p \<Longrightarrow> p \<in> set (files (snd (ytdlp_download run url rid w)))"
proof -
  assume a: "fst (ytdlp_download run url rid w) = Inr p"
  let ?w2 = "write_files (snd (run url (rid @ ''.%(ext)s''))) (emit (YtDlpRun url (rid @ ''.%(ext)s'')) w)"
  from a have f: "find (starts_with (rid @ ''.'')) (sort (remdups (files ?w2))) = Some p"
    and s: "snd (ytdlp_download run url rid w) = emit ReadDirSync ?w2"
    by (auto simp: ytdlp_download_def readdirSync_def Let_def split: option.splits)
  from f have "p \<in> set (sort (remdups (files ?w2)))"
    by (rule find_in_set)
  then have "p \<in> set (files ?w2)"
    by simp
  then show ?thesis
    by (simp add: s)
qed

lemma ytdl_core_writes:
  "primary_error env url = None \<Longrightarrow> mp4 \<in> set (files (snd (ytdl_core_download env url mp4 w)))"
  by (auto simp: primary_error_def ytdl_core_download_def Let_def write_file_there
      split: option.splits tool_result.splits)

lemma download_file_there:
  assumes "fst (downloadYoutube env url rid w) = Inr p"
  shows "p \<in> set (files (snd (downloadYoutube env url rid w)))"
proof -
  let ?d = "ytdl_core_download env url (rid @ ''.mp4'') (emit (YtdlValidateURL url) w)"
  have v: "validateURL env url"
    using assms by (auto simp: downloadYoutube_def Let_def split: if_splits)
  show ?thesis
  proof (cases "primary_error env url")
    case None
    then have "fst ?d = None"
      by (simp add: ytdl_core_result)
    then have "downloadYoutube env url rid w = (Inr (rid @ ''.mp4''), snd ?d)"
      using v by (cases ?d) (simp add: downloadYoutube_def Let_def)
    then show ?thesis
      using assms ytdl_core_writes [OF None] by simp
  next
    case (Some err)
    then have e: "fst ?d = Some err"
      by (simp add: ytdl_core_result)
    show ?thesis
    proof (cases "ytdlp env")
      case None
      then show ?thesis
        using assms v e by (cases ?d) (simp add: downloadYoutube_def Let_def split: if_splits)
    next
      case (Some run)
      then have "downloadYoutube env url rid w = ytdlp_download run url rid (snd ?d)"
        using v e by (cases ?d) (simp add: downloadYoutube_def Let_def)
      then show ?thesis
        using assms ytdlp_file_there by simp
    qed
  qed
qed

section \<open>Properties of \<^verbatim>\<open>POST /api/transcribe\<close>\<close>

text \<open>
  C5. The handler answers with status 400 exactly when the request has neither a
  \<^verbatim>\<open>youtubeUrl\<close> (a truthy field of the body) nor an uploaded file; it then
  makes no call at all. With a \<^verbatim>\<open>youtubeUrl\<close> the first call is the validation
  of the URL by \<^verbatim>\<open>downloadYoutube\<close>; with an upload alone the first call is the
  conversion of the uploaded file.
\<close>

theorem transcribe_rejects_iff:
  "(status (fst (transcribe_handler env rid req w)) = 400 \<longleftrightarrow>
      \<not> truthy (body_field (body req) ''youtubeUrl'') \<and> \<not> path_truthy (file_path req))
   \<and> (status (fst (transcribe_handler env rid req w)) = 400 \<longrightarrow>
        new_events w (snd (snd (transcribe_handler env rid req w))) = [])
   \<and> (truthy (body_field (body req) ''youtubeUrl'') \<longrightarrow>
        (\<exists>evs. new_events w (snd (snd (transcribe_handler env rid req w))) =
           YtdlValidateURL (body_field (body req) ''youtubeUrl'') # evs))
   \<and> (\<forall>f. \<not> truthy (body_field (body req) ''youtubeUrl'') \<and> file_path req = Some f \<and> f \<noteq> [] \<longrightarrow>
        (\<exists>evs. new_events w (snd (snd (transcribe_handler env rid req w))) =
           FfmpegSave f (rid @ ''.wav'') WAV_OPTIONS # evs))"
proof -
  let ?url = "body_field (body req) ''youtubeUrl''"
  let ?blk = "transcribe_try env rid ?url (file_path req) initial_locals w"
  let ?wf = "snd (snd (transcribe_handler env rid req w))"
  let ?err = "case fst ?blk of Inl err \<Rightarrow> [ConsoleError ''/api/transcribe error:'' err] | Inr res \<Rightarrow> []"
  have iff: "status (fst (transcribe_handler env rid req w)) = 400 \<longleftrightarrow>
      \<not> truthy ?url \<and> \<not> path_truthy (file_path req)"
    by (simp add: handler_fst respond_status try_status_400)
  obtain cs where cs: "trace ?wf = trace (snd (snd (transcribe_respond env rid req w))) @ cs"
    using handler_trace by blast
  have none: "new_events w ?wf = []" if "\<not> truthy ?url" "\<not> path_truthy (file_path req)"
  proof -
    have t: "?blk = (Inr NO_INPUT, initial_locals, w)"
      using that by (simp add: transcribe_try_def path_truthy_def split: option.splits)
    have r: "transcribe_respond env rid req w = (NO_INPUT, initial_locals, w)"
      by (simp add: respond_eq t)
    have "?wf = w"
      using that
      by (simp add: handler_world r cleanup_snd safeUnlink_eq path_truthy_def initial_locals_def
          split: option.splits)
    then show ?thesis by (simp add: new_events_def)
  qed
  have yt: "\<exists>evs. new_events w ?wf = YtdlValidateURL ?url # evs" if "truthy ?url"
  proof -
    have "\<exists>evs. trace (snd (snd ?blk)) = trace w @ YtdlValidateURL ?url # evs"
      using that by (simp add: try_trace download_events_def)
    then obtain evs where "trace (snd (snd ?blk)) = trace w @ YtdlValidateURL ?url # evs"
      by blast
    then have "trace ?wf = trace w @ YtdlValidateURL ?url # (evs @ ?err @ cs)"
      by (simp add: cs respond_trace)
    then show ?thesis by (simp add: new_events_def)
  qed
  have up: "\<exists>evs. new_events w ?wf = FfmpegSave f (rid @ ''.wav'') WAV_OPTIONS # evs"
    if "\<not> truthy ?url" "file_path req = Some f" "f \<noteq> []" for f
  proof -
    have "\<exists>evs. trace (snd (snd ?blk)) = trace w @ FfmpegSave f (rid @ ''.wav'') WAV_OPTIONS # evs"
      using that by (simp add: try_trace pipeline_events_def)
    then obtain evs where
      "trace (snd (snd ?blk)) = trace w @ FfmpegSave f (rid @ ''.wav'') WAV_OPTIONS # evs"
      by blast
    then have "trace ?wf = trace w @ FfmpegSave f (rid @ ''.wav'') WAV_OPTIONS # (evs @ ?err @ cs)"
      by (simp add: cs respond_trace)
    then show ?thesis by (simp add: new_events_def)
  qed
  show ?thesis
    using iff none yt up by blast
qed

theorem transcribe_rejects_iff_witness:
  "status (fst (transcribe_handler env_ok ''r1'' \<lparr>body = JObj [], file_path = None\<rparr> w0)) = 400
   \<and> new_events w0 (snd (snd (transcribe_handler env_ok ''r1'' \<lparr>body = JObj [], file_path = None\<rparr> w0))) = []
   \<and> status (fst (transcribe_handler env_ok ''r1'' youtube_request w0)) \<noteq> 400
   \<and> (\<exists>evs. new_events w0 (snd (snd (transcribe_handler env_ok ''r1'' youtube_request w0))) =
           YtdlValidateURL (JStr ''https://youtu.be/abc'') # evs)"
  using transcribe_rejects_iff [of env_ok "''r1''" "\<lparr>body = JObj [], file_path = None\<rparr>" w0]
    transcribe_rejects_iff [of env_ok "''r1''" youtube_request w0]
  by (simp add: body_field_def js_or_def youtube_request_def path_truthy_def)

text \<open>
  C10. \<^verbatim>\<open>safeUnlink\<close> always returns normally. For \<^verbatim>\<open>null\<close> (and for the empty
  path) it leaves the state as it is, making no call. For a file that is not
  there it only asks \<^verbatim>\<open>existsSync\<close>. A file that is there is removed, and no
  other file is; when the removal fails the listing is unchanged and the failure
  is logged with \<^verbatim>\<open>console.warn\<close>. So the \<^verbatim>\<open>finally\<close> block of the transcribe
  handler never throws and the response is the one chosen before it ran.
\<close>

theorem safeUnlink_never_throws:
  "fst (safeUnlink env p w) = Inr ()
   \<and> (\<not> path_truthy p \<longrightarrow> snd (safeUnlink env p w) = w)
   \<and> (\<forall>f. p = Some f \<and> f \<noteq> [] \<and> f \<notin> set (files w) \<longrightarrow>
         snd (safeUnlink env p w) = emit (ExistsSync f) w)
   \<and> (\<forall>f. p = Some f \<and> f \<noteq> [] \<and> f \<in> set (files w) \<and> unlink_error env f = None \<longrightarrow>
         files (snd (safeUnlink env p w)) = removeAll f (files w) \<and>
         new_events w (snd (safeUnlink env p w)) = [ExistsSync f, UnlinkSync f])
   \<and> (\<forall>f e. p = Some f \<and> f \<noteq> [] \<and> f \<in> set (files w) \<and> unlink_error env f = Some e \<longrightarrow>
         files (snd (safeUnlink env p w)) = files w \<and>
         new_events w (snd (safeUnlink env p w)) =
           [ExistsSync f, UnlinkSync f, ConsoleWarn f (err_message e)])
   \<and> fst (snd (transcribe_handler env rid req w)) = Inr ()
   \<and> fst (transcribe_handler env rid req w) = fst (transcribe_respond env rid req w)"
proof -
  have 1: "fst (safeUnlink env p w) = Inr ()"
    by (simp add: safeUnlink_eq)
  have 2: "snd (safeUnlink env p w) = w" if "\<not> path_truthy p"
    using that by (simp add: safeUnlink_eq path_truthy_def split: option.splits)
  have 3: "snd (safeUnlink env p w) = emit (ExistsSync f) w"
    if "p = Some f" "f \<noteq> []" "f \<notin> set (files w)" for f
    using that by (simp add: safeUnlink_eq)
  have 4: "files (snd (safeUnlink env p w)) = removeAll f (files w) \<and>
      new_events w (snd (safeUnlink env p w)) = [ExistsSync f, UnlinkSync f]"
    if "p = Some f" "f \<noteq> []" "f \<in> set (files w)" "unlink_error env f = None" for f
    using that by (simp add: safeUnlink_eq new_events_def)
  have 5: "files (snd (safeUnlink env p w)) = files w \<and>
      new_events w (snd (safeUnlink env p w)) =
        [ExistsSync f, UnlinkSync f, ConsoleWarn f (err_message e)]"
    if "p = Some f" "f \<noteq> []" "f \<in> set (files w)" "unlink_error env f = Some e" for f e
    using that by (simp add: safeUnlink_eq new_events_def)
  show ?thesis
    using 1 2 3 4 5 handler_uncaught [of env rid req w] handler_fst [of env rid req w]
    by blast
qed

theorem safeUnlink_never_throws_witness:
  "fst (safeUnlink env_locked (Some ''u7.ogg'') w_upload) = Inr ()
   \<and> files (snd (safeUnlink env_locked (Some ''u7.ogg'') w_upload)) = files w_upload
   \<and> new_events w_upload (snd (safeUnlink env_locked (Some ''u7.ogg'') w_upload)) =
        [ExistsSync ''u7.ogg'', UnlinkSync ''u7.ogg'',
         ConsoleWarn ''u7.ogg'' (err_message (new_Error ''EPERM: operation not permitted''))]
   \<and> files (snd (safeUnlink env_ok (Some ''u7.ogg'') w_upload)) = removeAll ''u7.ogg'' (files w_upload)
   \<and> snd (safeUnlink env_ok None w_upload) = w_upload
   \<and> snd (safeUnlink env_ok (Some ''r1.wav'') w_upload) = emit (ExistsSync ''r1.wav'') w_upload"
proof -
  have locked: "unlink_error env_locked ''u7.ogg'' = Some (new_Error ''EPERM: operation not permitted'')"
    by (simp add: env_locked_def)
  have ok: "unlink_error env_ok ''u7.ogg'' = None"
    by (simp add: env_ok_def)
  have there: "''u7.ogg'' \<in> set (files w_upload)" "''u7.ogg'' \<noteq> []"
    by (simp_all add: w_upload_def)
  have absent: "''r1.wav'' \<notin> set (files w_upload)" "''r1.wav'' \<noteq> []"
    by (simp_all add: w_upload_def)
  have null: "\<not> path_truthy None"
    by (simp add: path_truthy_def)
  note t1 = safeUnlink_never_throws [of env_locked "Some ''u7.ogg''" w_upload]
  note t2 = safeUnlink_never_throws [of env_ok "Some ''u7.ogg''" w_upload]
  note t3 = safeUnlink_never_throws [of env_ok None w_upload]
  note t4 = safeUnlink_never_throws [of env_ok "Some ''r1.wav''" w_upload]
  have 1: "fst (safeUnlink env_locked (Some ''u7.ogg'') w_upload) = Inr ()"
    using t1 by (rule conjunct1)
  have 2: "files (snd (safeUnlink env_locked (Some ''u7.ogg'') w_upload)) = files w_upload
     \<and> new_events w_upload (snd (safeUnlink env_locked (Some ''u7.ogg'') w_upload)) =
        [ExistsSync ''u7.ogg'', UnlinkSync ''u7.ogg'',
         ConsoleWarn ''u7.ogg'' (err_message (new_Error ''EPERM: operation not permitted''))]"
    using t1 locked there by simp
  have 3: "files (snd (safeUnlink env_ok (Some ''u7.ogg'') w_upload)) = removeAll ''u7.ogg'' (files w_upload)"
    using t2 ok there by simp
  have 4: "snd (safeUnlink env_ok None w_upload) = w_upload"
    using t3 null by simp
  have 5: "snd (safeUnlink env_ok (Some ''r1.wav'') w_upload) = emit (ExistsSync ''r1.wav'') w_upload"
    using t4 absent by simp
  show ?thesis
    using 1 2 3 4 5 by simp
qed

lemma try_ignores_upload:
  "truthy url \<Longrightarrow> transcribe_try env rid url up l w = transcribe_try env rid url None l w"
  by (simp add: transcribe_try_def)

lemma respond_ignores_upload:
  "truthy (body_field (body req) ''youtubeUrl'') \<Longrightarrow>
     transcribe_respond env rid req w = transcribe_respond env rid (req\<lparr>file_path := None\<rparr>) w"
  using try_ignores_upload [of "body_field (body req) ''youtubeUrl''" env rid "file_path req" initial_locals w]
  by (simp add: transcribe_respond_def)

lemma no_media_in_cleanup: "list_all cleanup_event xs \<Longrightarrow> Some f \<notin> set (map media_input xs)"
proof (induction xs)
  case Nil
  then show ?case by simp
next
  case (Cons e xs)
  then show ?case by (cases e) simp_all
qed

text \<open>
  C9. A request with both a \<^verbatim>\<open>youtubeUrl\<close> and an upload, the request id being
  fresh (the name of the upload does not start with the id and a dot). The URL
  is what the handler works on: its answer is the answer to the same request
  without the upload; its calls are those of that request (which start with
  the calls of \<^verbatim>\<open>downloadYoutube\<close> on the URL) followed by cleanup calls; when
  the download returns a file, that file, which is not the upload, is the one
  converted. No conversion and no transcription reads the uploaded file. The
  last \<^verbatim>\<open>safeUnlink\<close> of the \<^verbatim>\<open>finally\<close> block asks for the upload, whatever the
  outcome of the request, and once the handler is done the upload is gone,
  unless the environment refused its removal.
\<close>

theorem youtube_url_takes_precedence:
  assumes "truthy (body_field (body req) ''youtubeUrl'')"
    and "file_path req = Some f" and "f \<noteq> []"
    and "\<not> starts_with (rid @ ''.'') f"
  shows "fst (transcribe_handler env rid req w) =
      fst (transcribe_handler env rid (req\<lparr>file_path := None\<rparr>) w)
    \<and> (\<exists>c cs. new_events w (snd (snd (transcribe_handler env rid req w))) =
          new_events w (snd (snd (transcribe_respond env rid (req\<lparr>file_path := None\<rparr>) w))) @
          c @ ExistsSync f # cs
        \<and> list_all cleanup_event c \<and> list_all cleanup_event cs)
    \<and> (\<exists>evs. new_events w (snd (snd (transcribe_handler env rid req w))) =
          new_events w (snd (downloadYoutube env (body_field (body req) ''youtubeUrl'') rid w)) @ evs)
    \<and> (\<forall>p. fst (downloadYoutube env (body_field (body req) ''youtubeUrl'') rid w) = Inr p \<longrightarrow>
          p \<noteq> f \<and>
          FfmpegSave p (rid @ ''.wav'') WAV_OPTIONS
            \<in> set (new_events w (snd (snd (transcribe_handler env rid req w)))))
    \<and> Some f \<notin> set (map media_input (new_events w (snd (snd (transcribe_handler env rid req w)))))
    \<and> ExistsSync f \<in> set (new_events w (snd (snd (transcribe_handler env rid req w))))
    \<and> (unlink_error env f = None \<longrightarrow> f \<notin> set (files (snd (snd (transcribe_handler env rid req w)))))"
proof -
  let ?url = "body_field (body req) ''youtubeUrl''"
  let ?blk = "transcribe_try env rid ?url (file_path req) initial_locals w"
  let ?wr = "snd (snd (transcribe_respond env rid req w))"
  let ?wf = "snd (snd (transcribe_handler env rid req w))"
  let ?err = "case fst ?blk of Inl err \<Rightarrow> [ConsoleError ''/api/transcribe error:'' err] | Inr res \<Rightarrow> []"
  let ?pipe = "case fst (downloadYoutube env ?url rid w) of Inl e \<Rightarrow> [] | Inr p \<Rightarrow> pipeline_events env rid p"
  note same = respond_ignores_upload [OF assms(1), of env rid w]
  have a: "fst (transcribe_handler env rid req w) =
      fst (transcribe_handler env rid (req\<lparr>file_path := None\<rparr>) w)"
    by (simp only: handler_fst same)
  have wav: "f \<noteq> rid @ ''.wav''"
    using assms(4) by (auto simp: starts_with_prefix)
  have dl: "Some f \<notin> set (map media_input (download_events env ?url rid))"
    by (auto simp: download_events_def split: option.splits)
  have other: "p \<noteq> f" if "fst (downloadYoutube env ?url rid w) = Inr p" for p
  proof -
    from that have "starts_with (rid @ ''.'') p" by (rule download_path)
    then show ?thesis using assms(4) by auto
  qed
  have pipe: "Some f \<notin> set (map media_input ?pipe)"
  proof (cases "fst (downloadYoutube env ?url rid w)")
    case (Inl e)
    then show ?thesis by simp
  next
    case (Inr p)
    then show ?thesis using other [OF Inr] wav by (auto simp: pipeline_events_def)
  qed
  have err: "Some f \<notin> set (map media_input ?err)"
    by (cases "fst ?blk") simp_all
  have wr: "trace ?wr = trace w @ download_events env ?url rid @ ?pipe @ ?err"
    using assms(1) by (simp add: respond_trace try_trace)
  obtain c cs where c: "trace ?wf = trace ?wr @ c @ ExistsSync f # cs"
    and clean: "list_all cleanup_event c" "list_all cleanup_event cs"
    using cleanup_checks [OF assms(3), of env "fst (snd (transcribe_respond env rid req w))" ?wr]
    by (auto simp: handler_world assms(2))
  have new: "new_events w ?wf = download_events env ?url rid @ ?pipe @ ?err @ c @ ExistsSync f # cs"
    by (simp add: new_events_def c wr)
  have nr: "new_events w ?wr = download_events env ?url rid @ ?pipe @ ?err"
    by (simp add: new_events_def wr)
  have "new_events w ?wf = new_events w ?wr @ c @ ExistsSync f # cs"
    by (simp add: new nr)
  then have b: "\<exists>c cs. new_events w ?wf =
      new_events w (snd (snd (transcribe_respond env rid (req\<lparr>file_path := None\<rparr>) w))) @
      c @ ExistsSync f # cs
      \<and> list_all cleanup_event c \<and> list_all cleanup_event cs"
    using clean same by auto
  have "new_events w (snd (downloadYoutube env ?url rid w)) = download_events env ?url rid"
    by (simp add: new_events_def download_trace)
  then have cc: "\<exists>evs. new_events w ?wf = new_events w (snd (downloadYoutube env ?url rid w)) @ evs"
    by (simp add: new)
  have d: "p \<noteq> f \<and> FfmpegSave p (rid @ ''.wav'') WAV_OPTIONS \<in> set (new_events w ?wf)"
    if "fst (downloadYoutube env ?url rid w) = Inr p" for p
    using that other [OF that] by (simp add: new pipeline_events_def)
  have e: "Some f \<notin> set (map media_input (new_events w ?wf))"
    using dl pipe err no_media_in_cleanup [OF clean(1)] no_media_in_cleanup [OF clean(2)]
    by (simp add: new)
  have g: "ExistsSync f \<in> set (new_events w ?wf)"
    by (simp add: new)
  have h: "f \<notin> set (files ?wf)" if "unlink_error env f = None"
    using cleanup_gone [OF assms(3), of env] that by (simp add: handler_world assms(2))
  show ?thesis
    using a b cc d e g h by (intro conjI allI impI) blast+
qed

text \<open>Two sample runs: one in which every stage succeeds, one in which the download fails.\<close>

theorem youtube_url_takes_precedence_witness:
  "truthy (body_field (body both_request) ''youtubeUrl'')
   \<and> file_path both_request = Some ''u7.ogg''
   \<and> fst (downloadYoutube env_ok (body_field (body both_request) ''youtubeUrl'') ''r1'' w_upload) =
        Inr (''r1'' @ ''.mp4'')
   \<and> FfmpegSave (''r1'' @ ''.mp4'') (''r1'' @ ''.wav'') WAV_OPTIONS
        \<in> set (new_events w_upload (snd (snd (transcribe_handler env_ok ''r1'' both_request w_upload))))
   \<and> fst (transcribe_handler env_ok ''r1'' both_request w_upload) =
        fst (transcribe_handler env_ok ''r1'' (both_request\<lparr>file_path := None\<rparr>) w_upload)
   \<and> Some ''u7.ogg'' \<notin> set (map media_input
        (new_events w_upload (snd (snd (transcribe_handler env_ok ''r1'' both_request w_upload)))))
   \<and> ExistsSync ''u7.ogg'' \<in> set
        (new_events w_upload (snd (snd (transcribe_handler env_ok ''r1'' both_request w_upload))))
   \<and> ''u7.ogg'' \<notin> set (files (snd (snd (transcribe_handler env_ok ''r1'' both_request w_upload))))
   \<and> Some ''u7.ogg'' \<notin> set (map media_input
        (new_events w_upload (snd (snd (transcribe_handler env_unavailable ''r1'' both_request w_upload)))))
   \<and> ExistsSync ''u7.ogg'' \<in> set
        (new_events w_upload (snd (snd (transcribe_handler env_unavailable ''r1'' both_request w_upload))))
   \<and> ''u7.ogg'' \<notin> set (files (snd (snd (transcribe_handler env_unavailable ''r1'' both_request w_upload))))"
proof -
  have 1: "truthy (body_field (body both_request) ''youtubeUrl'')"
    by (simp add: both_request_def body_field_def js_or_def)
  have 2: "file_path both_request = Some ''u7.ogg''"
    by (simp add: both_request_def)
  have 3: "''u7.ogg'' \<noteq> []"
    by simp
  have 4: "\<not> starts_with (''r1'' @ ''.'') ''u7.ogg''"
    by simp
  have 5: "unlink_error env_unavailable ''u7.ogg'' = None" "unlink_error env_ok ''u7.ogg'' = None"
    by (simp_all add: env_unavailable_def env_ok_def)
  have 6: "fst (downloadYoutube env_ok (body_field (body both_request) ''youtubeUrl'') ''r1'' w_upload) =
      Inr (''r1'' @ ''.mp4'')"
    by (rule download_primary) (simp_all add: env_ok_def primary_error_def)
  note ok = youtube_url_takes_precedence [OF 1 2 3 4, of env_ok w_upload]
  note bad = youtube_url_takes_precedence [OF 1 2 3 4, of env_unavailable w_upload]
  have 7: "FfmpegSave (''r1'' @ ''.mp4'') (''r1'' @ ''.wav'') WAV_OPTIONS
      \<in> set (new_events w_upload (snd (snd (transcribe_handler env_ok ''r1'' both_request w_upload))))"
    using ok 6 by (elim conjE) (drule spec [of _ "''r1'' @ ''.mp4''"], simp only:)
  have 8: "fst (transcribe_handler env_ok ''r1'' both_request w_upload) =
      fst (transcribe_handler env_ok ''r1'' (both_request\<lparr>file_path := None\<rparr>) w_upload)"
    using ok by (rule conjunct1)
  have 9: "Some ''u7.ogg'' \<notin> set (map media_input
        (new_events w_upload (snd (snd (transcribe_handler env_ok ''r1'' both_request w_upload)))))
     \<and> ExistsSync ''u7.ogg'' \<in> set
        (new_events w_upload (snd (snd (transcribe_handler env_ok ''r1'' both_request w_upload))))
     \<and> ''u7.ogg'' \<notin> set (files (snd (snd (transcribe_handler env_ok ''r1'' both_request w_upload))))"
    using ok 5(2) by (elim conjE) (intro conjI, assumption, assumption, erule mp, assumption)
  have 10: "Some ''u7.ogg'' \<notin> set (map media_input
        (new_events w_upload (snd (snd (transcribe_handler env_unavailable ''r1'' both_request w_upload)))))
     \<and> ExistsSync ''u7.ogg'' \<in> set
        (new_events w_upload (snd (snd (transcribe_handler env_unavailable ''r1'' both_request w_upload))))
     \<and> ''u7.ogg'' \<notin> set (files (snd (snd (transcribe_handler env_unavailable ''r1'' both_request w_upload))))"
    using bad 5(1) by (elim conjE) (intro conjI, assumption, assumption, erule mp, assumption)
  show ?thesis
    using 1 2 6 7 8 9 10 by (intro conjI) (elim conjE, assumption)+
qed

text \<open>
  C3. A request with a \<^verbatim>\<open>youtubeUrl\<close> that is answered with status 200:
  \<^verbatim>\<open>downloadYoutube\<close> returned a path \<open>p\<close> of a file that is in the temporary
  directory; ffmpeg ran from \<open>p\<close> to \<^verbatim>\<open>`${id}.wav`\<close> with the options for mono,
  16 kHz, 16-bit PCM WAV, succeeded, and that file is there after the run; the
  transcription request on that file returned; the state in which the answer is
  sent is the one these three steps produce in this order; the calls of the
  handler are those of \<^verbatim>\<open>downloadYoutube\<close>, then the one ffmpeg run, then the one
  transcription request, then only the calls of the cleanup; and the body holds
  the id, the text (the empty string when the transcription has none) and the
  transcription.
\<close>

theorem youtube_success_sequence:
  assumes "truthy (body_field (body req) ''youtubeUrl'')"
    and "status (fst (transcribe_handler env rid req w)) = 200"
  shows "\<exists>p t cs.
      fst (downloadYoutube env (body_field (body req) ''youtubeUrl'') rid w) = Inr p
    \<and> p \<in> set (files (snd (downloadYoutube env (body_field (body req) ''youtubeUrl'') rid w)))
    \<and> ffmpeg_save env p (rid @ ''.wav'') = Done
    \<and> rid @ ''.wav'' \<in> set (files (snd (convertToWav env p (rid @ ''.wav'')
          (snd (downloadYoutube env (body_field (body req) ''youtubeUrl'') rid w)))))
    \<and> groq_transcriptions env (rid @ ''.wav'') = Inr t
    \<and> snd (snd (transcribe_respond env rid req w)) =
        snd (transcribeWithGroq env (rid @ ''.wav'')
          (snd (convertToWav env p (rid @ ''.wav'')
            (snd (downloadYoutube env (body_field (body req) ''youtubeUrl'') rid w)))))
    \<and> new_events w (snd (snd (transcribe_handler env rid req w))) =
        new_events w (snd (downloadYoutube env (body_field (body req) ''youtubeUrl'') rid w)) @
        [FfmpegSave p (rid @ ''.wav'')
           [''-vn'', ''-sn'', ''-y'', ''-ac 1'', ''-ar 16000'', ''-f wav'', ''-acodec pcm_s16le''],
         GroqTranscription (rid @ ''.wav'') ''whisper-large-v3-turbo''] @ cs
    \<and> list_all cleanup_event cs
    \<and> payload (fst (transcribe_handler env rid req w)) =
        Json (JObj [(''id'', JStr rid),
          (''text'', if truthy (opt_prop t ''text'') then opt_prop t ''text'' else JStr []),
          (''transcription'', t)])"
proof -
  let ?url = "body_field (body req) ''youtubeUrl''"
  let ?blk = "transcribe_try env rid ?url (file_path req) initial_locals w"
  let ?wr = "snd (snd (transcribe_respond env rid req w))"
  let ?wf = "snd (snd (transcribe_handler env rid req w))"
  let ?wd = "snd (downloadYoutube env ?url rid w)"
  have st: "(case fst ?blk of Inl err \<Rightarrow> 500 | Inr res \<Rightarrow> status res) = (200::nat)"
    using assms(2) by (simp add: handler_fst respond_status)
  then obtain res where res: "fst ?blk = Inr res"
    by (cases "fst ?blk") simp_all
  then obtain p where p: "fst (downloadYoutube env ?url rid w) = Inr p"
    and pr: "pipeline_result env rid p = Inr res"
    using assms(1) by (cases "fst (downloadYoutube env ?url rid w)") (simp_all add: try_fst)
  from pr obtain t where ff: "ffmpeg_save env p (rid @ ''.wav'') = Done"
    and t: "groq_transcriptions env (rid @ ''.wav'') = Inr t"
    and rt: "res = transcribed rid t"
    by (auto simp: pipeline_result_def split: tool_result.splits sum.splits)
  obtain wd where d: "downloadYoutube env ?url rid w = (Inr p, wd)"
    using p by (cases "downloadYoutube env ?url rid w") simp
  have eq: "snd (downloadYoutube env ?url rid w) = wd"
    by (simp add: d)
  have there: "p \<in> set (files wd)"
    using download_file_there [OF p] by (simp add: eq)
  have wav: "rid @ ''.wav'' \<in> set (files (snd (convertToWav env p (rid @ ''.wav'') wd)))"
    by (simp add: convertToWav_def Let_def ff write_file_there)
  have blk: "?blk = (Inr (transcribed rid t), initial_locals\<lparr>workingInputPath := Some p,
        wavPath := Some (rid @ ''.wav'')\<rparr>,
      snd (transcribeWithGroq env (rid @ ''.wav'') (snd (convertToWav env p (rid @ ''.wav'') wd))))"
    using assms(1)
    by (simp add: transcribe_try_def d transcribe_pipeline_def convertToWav_def
        transcribeWithGroq_def Let_def ff t)
  have wr: "?wr = snd (transcribeWithGroq env (rid @ ''.wav'')
      (snd (convertToWav env p (rid @ ''.wav'') wd)))"
    by (simp add: respond_eq blk)
  obtain cs where cs: "trace ?wf = trace ?wr @ cs" "list_all cleanup_event cs"
    using handler_trace by blast
  have "trace ?wr = trace w @ download_events env ?url rid @ pipeline_events env rid p"
    using assms(1) by (simp add: respond_trace try_trace res p)
  then have ev: "new_events w ?wf =
      new_events w wd @
      [FfmpegSave p (rid @ ''.wav'')
         [''-vn'', ''-sn'', ''-y'', ''-ac 1'', ''-ar 16000'', ''-f wav'', ''-acodec pcm_s16le''],
       GroqTranscription (rid @ ''.wav'') ''whisper-large-v3-turbo''] @ cs"
    using download_trace [of env ?url rid w]
    by (simp add: new_events_def cs eq pipeline_events_def ff WAV_OPTIONS_def)
  have "fst (transcribe_handler env rid req w) = transcribed rid t"
    by (simp add: handler_fst respond_fst res rt)
  then have pl: "payload (fst (transcribe_handler env rid req w)) =
      Json (JObj [(''id'', JStr rid),
        (''text'', if truthy (opt_prop t ''text'') then opt_prop t ''text'' else JStr []),
        (''transcription'', t)])"
    by (simp add: transcribed_def js_or_def)
  show ?thesis
    unfolding eq
    by (intro exI [of _ p] exI [of _ t] exI [of _ cs] conjI p there ff wav t wr ev cs(2) pl)
qed

text \<open>
  The sample run is the one in which the stream of ytdl-core breaks off, leaving
  an incomplete \<^verbatim>\<open>r1.mp4\<close>, and yt-dlp then writes \<^verbatim>\<open>r1.mp3\<close>: the file the
  directory listing gives first, \<^verbatim>\<open>r1.mp3\<close>, is the one converted.
\<close>

lemma partial_listing: "sort (remdups [''r1.mp4'', ''r1.mp3'']) = [''r1.mp3'', ''r1.mp4'']"
  by code_simp

lemma partial_download:
  "downloadYoutube env_partial (JStr ''https://youtu.be/abc'') ''r1'' w0 =
     (Inr ''r1.mp3'',
      \<lparr>files = [''r1.mp4'', ''r1.mp3''],
       trace = [YtdlValidateURL (JStr ''https://youtu.be/abc''),
         YtdlGetInfo (JStr ''https://youtu.be/abc''),
         YtdlStream (JStr ''https://youtu.be/abc'') ''r1.mp4'',
         YtDlpRun (JStr ''https://youtu.be/abc'') ''r1.%(ext)s'', ReadDirSync]\<rparr>)"
proof -
  have m: "message_or_string (new_Error ''Status code: 403'') = ''Status code: 403''"
    by (simp add: message_or_string_def new_Error_def)
  show ?thesis
    by (simp add: downloadYoutube_def ytdl_core_download_def ytdlp_download_def readdirSync_def
        Let_def w0_def env_partial_def env_ok_def emit_def write_file_def m partial_listing)
qed

theorem youtube_success_sequence_witness:
  "truthy (body_field (body youtube_request) ''youtubeUrl'')
   \<and> status (fst (transcribe_handler env_partial ''r1'' youtube_request w0)) = 200
   \<and> fst (downloadYoutube env_partial (body_field (body youtube_request) ''youtubeUrl'') ''r1'' w0) =
        Inr ''r1.mp3''
   \<and> (\<exists>p t cs.
      fst (downloadYoutube env_partial (body_field (body youtube_request) ''youtubeUrl'') ''r1'' w0) = Inr p
    \<and> p \<in> set (files (snd (downloadYoutube env_partial (body_field (body youtube_request) ''youtubeUrl'') ''r1'' w0)))
    \<and> ffmpeg_save env_partial p (''r1'' @ ''.wav'') = Done
    \<and> ''r1'' @ ''.wav'' \<in> set (files (snd (convertToWav env_partial p (''r1'' @ ''.wav'')
          (snd (downloadYoutube env_partial (body_field (body youtube_request) ''youtubeUrl'') ''r1'' w0)))))
    \<and> groq_transcriptions env_partial (''r1'' @ ''.wav'') = Inr t
    \<and> snd (snd (transcribe_respond env_partial ''r1'' youtube_request w0)) =
        snd (transcribeWithGroq env_partial (''r1'' @ ''.wav'')
          (snd (convertToWav env_partial p (''r1'' @ ''.wav'')
            (snd (downloadYoutube env_partial (body_field (body youtube_request) ''youtubeUrl'') ''r1'' w0)))))
    \<and> new_events w0 (snd (snd (transcribe_handler env_partial ''r1'' youtube_request w0))) =
        new_events w0 (snd (downloadYoutube env_partial (body_field (body youtube_request) ''youtubeUrl'') ''r1'' w0)) @
        [FfmpegSave p (''r1'' @ ''.wav'')
           [''-vn'', ''-sn'', ''-y'', ''-ac 1'', ''-ar 16000'', ''-f wav'', ''-acodec pcm_s16le''],
         GroqTranscription (''r1'' @ ''.wav'') ''whisper-large-v3-turbo''] @ cs
    \<and> list_all cleanup_event cs
    \<and> payload (fst (transcribe_handler env_partial ''r1'' youtube_request w0)) =
        Json (JObj [(''id'', JStr ''r1''),
          (''text'', if truthy (opt_prop t ''text'') then opt_prop t ''text'' else JStr []),
          (''transcription'', t)]))"
proof -
  have u: "body_field (body youtube_request) ''youtubeUrl'' = JStr ''https://youtu.be/abc''"
    by (simp add: youtube_request_def body_field_def js_or_def)
  have 1: "truthy (body_field (body youtube_request) ''youtubeUrl'')"
    by (simp add: u)
  have d: "fst (downloadYoutube env_partial (body_field (body youtube_request) ''youtubeUrl'') ''r1'' w0) =
      Inr ''r1.mp3''"
    by (simp add: u partial_download)
  have "pipeline_result env_partial ''r1'' ''r1.mp3'' =
      Inr (transcribed ''r1'' (JObj [(''text'', JStr ''hello'')]))"
    by (simp add: pipeline_result_def env_partial_def env_ok_def)
  then have 2: "status (fst (transcribe_handler env_partial ''r1'' youtube_request w0)) = 200"
    using 1 d by (simp add: handler_fst respond_status try_fst transcribed_def)
  show ?thesis
    using youtube_success_sequence [OF 1 2] 1 2 d by simp
qed

text \<open>
  C1, at a request with a \<^verbatim>\<open>youtubeUrl\<close> that ytdl-core serves: the handler
  answers with status 200 and the downloaded file \<^verbatim>\<open>r1.mp4\<close> is still in the
  temporary directory when it is done. The variable \<^verbatim>\<open>mp4Path\<close> that the
  \<^verbatim>\<open>finally\<close> block hands to \<^verbatim>\<open>safeUnlink\<close> is never assigned, here as on
  every request (\<open>respond_mp4Path\<close>), so that no download served by ytdl-core is
  ever removed (\<open>downloaded_file_is_never_removed\<close> below).
\<close>

theorem download_left_behind:
  "status (fst (transcribe_handler env_ok ''r1'' youtube_request w0)) = 200
   \<and> files (snd (snd (transcribe_handler env_ok ''r1'' youtube_request w0))) = [''r1.mp4'']
   \<and> mp4Path (fst (snd (transcribe_respond env_ok ''r1'' youtube_request w0))) = None"
  by (simp add: transcribe_handler_def transcribe_respond_def transcribe_try_def
      transcribe_pipeline_def downloadYoutube_def ytdl_core_download_def convertToWav_def
      transcribeWithGroq_def transcribed_def cleanup_def safeUnlink_def existsSync_def
      unlinkSync_def initial_locals_def env_ok_def youtube_request_def w0_def body_field_def
      js_or_def emit_def write_file_def Let_def)

section \<open>Properties of \<^verbatim>\<open>downloadYoutube\<close> and of the failure response\<close>

text \<open>
  C2, as the code has it. The second method (yt-dlp) is run exactly when the URL
  is valid, the first method (ytdl-core) failed and the module is installed,
  whatever the message of the failure. Without the module no second attempt is
  made and an error is thrown; the pattern \<^verbatim>\<open>/Could not extract functions/i\<close>
  only chooses its message: the fixed text about the signature change when the
  message matches, \<^verbatim>\<open>YouTube download failed:\<close> and the message otherwise.
\<close>

theorem fallback_whenever_available:
  "(list_ex fallback_event (new_events w (snd (downloadYoutube env url rid w))) \<longleftrightarrow>
      validateURL env url \<and> primary_error env url \<noteq> None \<and> ytdlp env \<noteq> None)
   \<and> (\<forall>err. validateURL env url \<and> primary_error env url = Some err \<and> ytdlp env = None \<longrightarrow>
         fst (downloadYoutube env url rid w) =
           Inl (new_Error (if decipherIssue (message_or_string err) then NO_FALLBACK_MESSAGE
                           else ''YouTube download failed: '' @ message_or_string err)))
   \<and> (validateURL env url \<and> primary_error env url = None \<longrightarrow>
         fst (downloadYoutube env url rid w) = Inr (rid @ ''.mp4''))
   \<and> (\<not> validateURL env url \<longrightarrow>
         fst (downloadYoutube env url rid w) = Inl (new_Error ''Invalid YouTube URL''))"
proof -
  have "new_events w (snd (downloadYoutube env url rid w)) = download_events env url rid"
    by (simp add: new_events_def download_trace)
  then have 1: "list_ex fallback_event (new_events w (snd (downloadYoutube env url rid w))) \<longleftrightarrow>
      validateURL env url \<and> primary_error env url \<noteq> None \<and> ytdlp env \<noteq> None"
    by (simp only: fallback_in_download_events)
  show ?thesis
    using 1 download_no_fallback [of env url _ rid w] download_primary [of env url rid w]
      download_invalid [of env url rid w]
    by blast
qed

theorem fallback_whenever_available_witness:
  "validateURL env_unavailable (JStr ''https://youtu.be/abc'')
   \<and> primary_error env_unavailable (JStr ''https://youtu.be/abc'') = Some (new_Error ''Video unavailable'')
   \<and> ytdlp env_unavailable = None
   \<and> \<not> list_ex fallback_event
        (new_events w0 (snd (downloadYoutube env_unavailable (JStr ''https://youtu.be/abc'') ''r1'' w0)))
   \<and> fst (downloadYoutube env_unavailable (JStr ''https://youtu.be/abc'') ''r1'' w0) =
        Inl (new_Error (if decipherIssue (message_or_string (new_Error ''Video unavailable''))
                        then NO_FALLBACK_MESSAGE
                        else ''YouTube download failed: '' @ message_or_string (new_Error ''Video unavailable'')))"
proof -
  have 1: "validateURL env_unavailable (JStr ''https://youtu.be/abc'')"
    by (simp add: env_unavailable_def env_ok_def)
  have 2: "primary_error env_unavailable (JStr ''https://youtu.be/abc'') = Some (new_Error ''Video unavailable'')"
    by (simp add: env_unavailable_def env_ok_def primary_error_def)
  have 3: "ytdlp env_unavailable = None"
    by (simp add: env_unavailable_def env_ok_def)
  show ?thesis
    using fallback_whenever_available [of w0 env_unavailable "JStr ''https://youtu.be/abc''" "''r1''"] 1 2 3
    by simp
qed

text \<open>
  The claim C2 fails where ytdl-core fails with a message that does not match the
  pattern while yt-dlp is installed: yt-dlp is run and its file is returned.
\<close>

lemma video_unavailable_no_decipher: "\<not> decipherIssue ''Video unavailable''"
  by code_simp

theorem fallback_on_other_failure:
  "primary_error env_fallback (JStr ''https://youtu.be/abc'') = Some (new_Error ''Video unavailable'')
   \<and> message_or_string (new_Error ''Video unavailable'') = ''Video unavailable''
   \<and> \<not> decipherIssue ''Video unavailable''
   \<and> list_ex fallback_event
        (new_events w0 (snd (downloadYoutube env_fallback (JStr ''https://youtu.be/abc'') ''r1'' w0)))
   \<and> fst (downloadYoutube env_fallback (JStr ''https://youtu.be/abc'') ''r1'' w0) = Inr ''r1.mp3''"
proof -
  have 1: "primary_error env_fallback (JStr ''https://youtu.be/abc'') = Some (new_Error ''Video unavailable'')"
    by (simp add: env_fallback_def env_unavailable_def env_ok_def primary_error_def)
  have 2: "message_or_string (new_Error ''Video unavailable'') = ''Video unavailable''"
    by (simp add: message_or_string_def new_Error_def)
  have v: "validateURL env_fallback (JStr ''https://youtu.be/abc'')"
    and y: "ytdlp env_fallback = Some (\<lambda>u out. (None, [''r1.mp3'']))"
    by (simp_all add: env_fallback_def env_unavailable_def env_ok_def)
  have "new_events w0 (snd (downloadYoutube env_fallback (JStr ''https://youtu.be/abc'') ''r1'' w0)) =
      download_events env_fallback (JStr ''https://youtu.be/abc'') ''r1''"
    by (simp add: new_events_def download_trace)
  then have 4: "list_ex fallback_event
      (new_events w0 (snd (downloadYoutube env_fallback (JStr ''https://youtu.be/abc'') ''r1'' w0)))"
    using v 1 y by (simp only: fallback_in_download_events) simp
  have 5: "fst (downloadYoutube env_fallback (JStr ''https://youtu.be/abc'') ''r1'' w0) = Inr ''r1.mp3''"
    by (simp add: downloadYoutube_def ytdl_core_download_def ytdlp_download_def readdirSync_def Let_def w0_def
        env_fallback_def env_unavailable_def env_ok_def emit_def write_file_def 2
        video_unavailable_no_decipher)
  show ?thesis
    using 1 2 4 5 video_unavailable_no_decipher by simp
qed

lemma download_fallback_failed:
  assumes "validateURL env url" and "primary_error env url = Some err" and "ytdlp env = Some run"
    and "fst (run url (rid @ ''.%(ext)s'')) = Some e"
  shows "fst (downloadYoutube env url rid w) =
    Inl (new_Error (''yt-dlp fallback failed: '' @ message_or_string e))"
proof -
  let ?d = "ytdl_core_download env url (rid @ ''.mp4'') (emit (YtdlValidateURL url) w)"
  have "fst ?d = Some err"
    using assms(2) by (simp add: ytdl_core_result)
  then have "downloadYoutube env url rid w = ytdlp_download run url rid (snd ?d)"
    using assms(1,3) by (cases ?d) (simp add: downloadYoutube_def Let_def)
  then show ?thesis
    using assms(4) by (simp add: ytdlp_download_def Let_def fallback_failed_def)
qed

lemma download_fallback_no_file:
  assumes "validateURL env url" and "primary_error env url = Some err" and "ytdlp env = Some run"
    and "fst (run url (rid @ ''.%(ext)s'')) = None"
    and "fst (downloadYoutube env url rid w) = Inl e"
  shows "e = new_Error ''yt-dlp fallback failed: yt-dlp did not produce an output file''"
proof -
  let ?d = "ytdl_core_download env url (rid @ ''.mp4'') (emit (YtdlValidateURL url) w)"
  have m: "message_or_string (new_Error ''yt-dlp did not produce an output file'') =
      ''yt-dlp did not produce an output file''"
    by (simp add: message_or_string_def new_Error_def)
  have "fst ?d = Some err"
    using assms(2) by (simp add: ytdl_core_result)
  then have "downloadYoutube env url rid w = ytdlp_download run url rid (snd ?d)"
    using assms(1,3) by (cases ?d) (simp add: downloadYoutube_def Let_def)
  then show ?thesis
    using assms(4,5)
    by (auto simp: ytdlp_download_def readdirSync_def Let_def fallback_failed_def m
        split: option.splits)
qed

lemma message_or_string_nonempty: "err_name e \<noteq> [] \<Longrightarrow> message_or_string e \<noteq> []"
  by (simp add: message_or_string_def error_toString_def)

lemma download_error_message: "fst (downloadYoutube env url rid w) = Inl e \<Longrightarrow> err_message e \<noteq> []"
proof -
  assume a: "fst (downloadYoutube env url rid w) = Inl e"
  let ?d = "ytdl_core_download env url (rid @ ''.mp4'') (emit (YtdlValidateURL url) w)"
  show ?thesis
  proof (cases "validateURL env url")
    case False
    then show ?thesis
      using a by (auto simp: download_invalid new_Error_def)
  next
    case True
    show ?thesis
    proof (cases "primary_error env url")
      case None
      then show ?thesis
        using a download_primary [OF True None, of rid w] by simp
    next
      case (Some err)
      show ?thesis
      proof (cases "ytdlp env")
        case None
        then show ?thesis
          using a download_no_fallback [OF True Some None, of rid w]
          by (auto simp: new_Error_def NO_FALLBACK_MESSAGE_def split: if_splits)
      next
        case run: (Some run)
        show ?thesis
        proof (cases "fst (run url (rid @ ''.%(ext)s''))")
          case None
          then show ?thesis
            using download_fallback_no_file [OF True Some run None a] by (simp add: new_Error_def)
        next
          case failed: (Some x)
          then show ?thesis
            using a download_fallback_failed [OF True Some run failed, of w]
            by (auto simp: new_Error_def)
        qed
      qed
    qed
  qed
qed

text \<open>
  C7, as the code has it. Whenever the \<^verbatim>\<open>try\<close> block of the handler throws, the
  answer has status 500 and the error \<^verbatim>\<open>Transcription failed\<close>; its details are
  the message of the error thrown, or the text \<^verbatim>\<open>String(err)\<close> when that message
  is empty; the hint is part of the body exactly when the details contain
  \<^verbatim>\<open>ytdl-core failed\<close>. The error thrown is the one \<^verbatim>\<open>downloadYoutube\<close> throws,
  else the one ffmpeg fails with, else the one the transcription request fails
  with. The errors of \<^verbatim>\<open>downloadYoutube\<close> are its own: \<^verbatim>\<open>Invalid YouTube URL\<close>;
  without yt-dlp, \<^verbatim>\<open>YouTube download failed:\<close> followed by the message of the
  error of ytdl-core, or the fixed text about the signature change; with
  yt-dlp, \<^verbatim>\<open>yt-dlp fallback failed:\<close> followed by the message of the error of
  yt-dlp, or by \<^verbatim>\<open>yt-dlp did not produce an output file\<close>. Their messages are
  never empty, so the details of a failed download are the message of the error
  of \<^verbatim>\<open>downloadYoutube\<close>.
\<close>

theorem transcribe_failure_response:
  "(\<forall>err. fst (transcribe_try env rid (body_field (body req) ''youtubeUrl'') (file_path req)
            initial_locals w) = Inl err \<longrightarrow>
      status (fst (transcribe_handler env rid req w)) = 500
      \<and> payload (fst (transcribe_handler env rid req w)) =
          Json (JObj [(''error'', JStr ''Transcription failed''),
            (''details'', JStr (if err_message err \<noteq> [] then err_message err else error_toString err)),
            (''hint'', if contains ''ytdl-core failed'' (message_or_string err) then JStr HINT
                       else JUndefined)])
      \<and> (field_present ''hint'' (json_of (payload (fst (transcribe_handler env rid req w)))) \<longleftrightarrow>
           contains ''ytdl-core failed''
             (if err_message err \<noteq> [] then err_message err else error_toString err)))
   \<and> fst (transcribe_try env rid (body_field (body req) ''youtubeUrl'') (file_path req)
        initial_locals w) =
       (if truthy (body_field (body req) ''youtubeUrl'') then
          (case fst (downloadYoutube env (body_field (body req) ''youtubeUrl'') rid w) of
             Inl e \<Rightarrow> Inl e
           | Inr p \<Rightarrow> pipeline_result env rid p)
        else (case file_path req of
                None \<Rightarrow> Inr NO_INPUT
              | Some p \<Rightarrow> if p = [] then Inr NO_INPUT else pipeline_result env rid p))
   \<and> (\<forall>p e left. ffmpeg_save env p (rid @ ''.wav'') = Failed e left \<longrightarrow>
         pipeline_result env rid p = Inl e)
   \<and> (\<forall>p e. ffmpeg_save env p (rid @ ''.wav'') = Done
         \<and> groq_transcriptions env (rid @ ''.wav'') = Inl e \<longrightarrow>
         pipeline_result env rid p = Inl e)
   \<and> (\<forall>url. \<not> validateURL env url \<longrightarrow>
         fst (downloadYoutube env url rid w) = Inl (new_Error ''Invalid YouTube URL''))
   \<and> (\<forall>url err. validateURL env url \<and> primary_error env url = Some err \<and> ytdlp env = None \<longrightarrow>
         fst (downloadYoutube env url rid w) =
           Inl (new_Error (if decipherIssue (message_or_string err) then NO_FALLBACK_MESSAGE
                           else ''YouTube download failed: '' @ message_or_string err)))
   \<and> (\<forall>url err run e. validateURL env url \<and> primary_error env url = Some err
         \<and> ytdlp env = Some run \<and> fst (run url (rid @ ''.%(ext)s'')) = Some e \<longrightarrow>
         fst (downloadYoutube env url rid w) =
           Inl (new_Error (''yt-dlp fallback failed: '' @ message_or_string e)))
   \<and> (\<forall>url err run e. validateURL env url \<and> primary_error env url = Some err
         \<and> ytdlp env = Some run \<and> fst (run url (rid @ ''.%(ext)s'')) = None
         \<and> fst (downloadYoutube env url rid w) = Inl e \<longrightarrow>
         e = new_Error ''yt-dlp fallback failed: yt-dlp did not produce an output file'')
   \<and> (\<forall>e. truthy (body_field (body req) ''youtubeUrl'')
         \<and> fst (downloadYoutube env (body_field (body req) ''youtubeUrl'') rid w) = Inl e \<longrightarrow>
         get_prop (json_of (payload (fst (transcribe_handler env rid req w)))) ''details'' =
           JStr (err_message e))"
proof -
  let ?blk = "transcribe_try env rid (body_field (body req) ''youtubeUrl'') (file_path req) initial_locals w"
  have 1: "status (fst (transcribe_handler env rid req w)) = 500
      \<and> payload (fst (transcribe_handler env rid req w)) =
          Json (JObj [(''error'', JStr ''Transcription failed''),
            (''details'', JStr (if err_message err \<noteq> [] then err_message err else error_toString err)),
            (''hint'', if contains ''ytdl-core failed'' (message_or_string err) then JStr HINT
                       else JUndefined)])
      \<and> (field_present ''hint'' (json_of (payload (fst (transcribe_handler env rid req w)))) \<longleftrightarrow>
           contains ''ytdl-core failed''
             (if err_message err \<noteq> [] then err_message err else error_toString err))"
    if "fst ?blk = Inl err" for err
    using that
    by (simp add: handler_fst respond_fst transcribe_catch_def Let_def message_or_string_def
        field_present_def)
  note 2 = try_fst [of env rid "body_field (body req) ''youtubeUrl''" "file_path req" initial_locals w]
  have 3: "pipeline_result env rid p = Inl e" if "ffmpeg_save env p (rid @ ''.wav'') = Failed e left"
    for p e left
    using that by (simp add: pipeline_result_def)
  have 4: "pipeline_result env rid p = Inl e"
    if "ffmpeg_save env p (rid @ ''.wav'') = Done \<and> groq_transcriptions env (rid @ ''.wav'') = Inl e"
    for p e
    using that by (simp add: pipeline_result_def)
  have 9: "get_prop (json_of (payload (fst (transcribe_handler env rid req w)))) ''details'' =
      JStr (err_message e)"
    if "truthy (body_field (body req) ''youtubeUrl'')
      \<and> fst (downloadYoutube env (body_field (body req) ''youtubeUrl'') rid w) = Inl e" for e
  proof -
    from that have "fst ?blk = Inl e"
      by (simp add: try_fst)
    moreover from that have "err_message e \<noteq> []"
      using download_error_message by blast
    ultimately show ?thesis
      by (simp add: handler_fst respond_fst transcribe_catch_def Let_def message_or_string_def)
  qed
  show ?thesis
  proof (intro conjI allI impI)
    fix err
    assume "fst ?blk = Inl err"
    note r = 1 [OF this]
    from r show "status (fst (transcribe_handler env rid req w)) = 500"
      by (rule conjunct1)
    from r show "payload (fst (transcribe_handler env rid req w)) =
          Json (JObj [(''error'', JStr ''Transcription failed''),
            (''details'', JStr (if err_message err \<noteq> [] then err_message err else error_toString err)),
            (''hint'', if contains ''ytdl-core failed'' (message_or_string err) then JStr HINT
                       else JUndefined)])"
      by (elim conjE)
    from r show "field_present ''hint'' (json_of (payload (fst (transcribe_handler env rid req w)))) \<longleftrightarrow>
           contains ''ytdl-core failed''
             (if err_message err \<noteq> [] then err_message err else error_toString err)"
      by (elim conjE)
  next
    show "fst ?blk =
       (if truthy (body_field (body req) ''youtubeUrl'') then
          (case fst (downloadYoutube env (body_field (body req) ''youtubeUrl'') rid w) of
             Inl e \<Rightarrow> Inl e
           | Inr p \<Rightarrow> pipeline_result env rid p)
        else (case file_path req of
                None \<Rightarrow> Inr NO_INPUT
              | Some p \<Rightarrow> if p = [] then Inr NO_INPUT else pipeline_result env rid p))"
      by (rule 2)
  next
    fix p e left
    assume "ffmpeg_save env p (rid @ ''.wav'') = Failed e left"
    then show "pipeline_result env rid p = Inl e" by (rule 3)
  next
    fix p e
    assume "ffmpeg_save env p (rid @ ''.wav'') = Done \<and> groq_transcriptions env (rid @ ''.wav'') = Inl e"
    then show "pipeline_result env rid p = Inl e" by (rule 4)
  next
    fix url
    assume "\<not> validateURL env url"
    then show "fst (downloadYoutube env url rid w) = Inl (new_Error ''Invalid YouTube URL'')"
      by (rule download_invalid)
  next
    fix url err
    assume "validateURL env url \<and> primary_error env url = Some err \<and> ytdlp env = None"
    then show "fst (downloadYoutube env url rid w) =
           Inl (new_Error (if decipherIssue (message_or_string err) then NO_FALLBACK_MESSAGE
                           else ''YouTube download failed: '' @ message_or_string err))"
      by (elim conjE) (rule download_no_fallback)
  next
    fix url err run e
    assume "validateURL env url \<and> primary_error env url = Some err
         \<and> ytdlp env = Some run \<and> fst (run url (rid @ ''.%(ext)s'')) = Some e"
    then show "fst (downloadYoutube env url rid w) =
           Inl (new_Error (''yt-dlp fallback failed: '' @ message_or_string e))"
      by (elim conjE) (rule download_fallback_failed)
  next
    fix url err run e
    assume "validateURL env url \<and> primary_error env url = Some err
         \<and> ytdlp env = Some run \<and> fst (run url (rid @ ''.%(ext)s'')) = None
         \<and> fst (downloadYoutube env url rid w) = Inl e"
    then show "e = new_Error ''yt-dlp fallback failed: yt-dlp did not produce an output file''"
      by (elim conjE) (rule download_fallback_no_file)
  next
    fix e
    assume "truthy (body_field (body req) ''youtubeUrl'')
         \<and> fst (downloadYoutube env (body_field (body req) ''youtubeUrl'') rid w) = Inl e"
    then show "get_prop (json_of (payload (fst (transcribe_handler env rid req w)))) ''details'' =
           JStr (err_message e)"
      by (rule 9)
  qed
qed

text \<open>
  The sample run: ytdl-core fails with \<^verbatim>\<open>Video unavailable\<close>, yt-dlp is installed
  and fails with \<^verbatim>\<open>ERROR: Unable to download webpage\<close>.
\<close>

theorem transcribe_failure_response_witness:
  "validateURL env_fallback_fails (JStr ''https://youtu.be/abc'')
   \<and> primary_error env_fallback_fails (JStr ''https://youtu.be/abc'') =
        Some (new_Error ''Video unavailable'')
   \<and> fst (downloadYoutube env_fallback_fails (JStr ''https://youtu.be/abc'') ''r1'' w0) =
        Inl (new_Error (''yt-dlp fallback failed: ''
          @ message_or_string (new_Error ''ERROR: Unable to download webpage'')))
   \<and> status (fst (transcribe_handler env_fallback_fails ''r1'' youtube_request w0)) = 500
   \<and> get_prop (json_of (payload (fst (transcribe_handler env_fallback_fails ''r1'' youtube_request w0))))
        ''details'' =
        JStr (''yt-dlp fallback failed: ''
          @ message_or_string (new_Error ''ERROR: Unable to download webpage''))"
proof -
  let ?url = "JStr ''https://youtu.be/abc''"
  let ?run = "\<lambda>(u::jsval) (out::string). (Some (new_Error ''ERROR: Unable to download webpage''), [] :: string list)"
  let ?e = "new_Error (''yt-dlp fallback failed: ''
          @ message_or_string (new_Error ''ERROR: Unable to download webpage''))"
  have u: "body_field (body youtube_request) ''youtubeUrl'' = ?url"
    by (simp add: youtube_request_def body_field_def js_or_def)
  have v: "validateURL env_fallback_fails ?url"
    and p: "primary_error env_fallback_fails ?url = Some (new_Error ''Video unavailable'')"
    and y: "ytdlp env_fallback_fails = Some ?run"
    and r: "fst (?run ?url (''r1'' @ ''.%(ext)s'')) = Some (new_Error ''ERROR: Unable to download webpage'')"
    by (simp_all add: env_fallback_fails_def env_unavailable_def env_ok_def primary_error_def)
  note th = transcribe_failure_response [of env_fallback_fails "''r1''" youtube_request w0]
  have d: "fst (downloadYoutube env_fallback_fails ?url ''r1'' w0) = Inl ?e"
    using th v p y r by (elim conjE) blast
  have t: "truthy (body_field (body youtube_request) ''youtubeUrl'')"
    by (simp add: u)
  have blk: "fst (transcribe_try env_fallback_fails ''r1'' (body_field (body youtube_request) ''youtubeUrl'')
      (file_path youtube_request) initial_locals w0) = Inl ?e"
    using th t d by (simp only: u) simp
  have s: "status (fst (transcribe_handler env_fallback_fails ''r1'' youtube_request w0)) = 500"
    using th blk by (elim conjE) blast
  have m: "err_message ?e = ''yt-dlp fallback failed: ''
          @ message_or_string (new_Error ''ERROR: Unable to download webpage'')"
    by (simp add: new_Error_def)
  have "get_prop (json_of (payload (fst (transcribe_handler env_fallback_fails ''r1'' youtube_request w0))))
        ''details'' = JStr (err_message ?e)"
    using th t d by (simp only: u)
  then have g: "get_prop (json_of (payload (fst (transcribe_handler env_fallback_fails ''r1'' youtube_request w0))))
        ''details'' = JStr (''yt-dlp fallback failed: ''
          @ message_or_string (new_Error ''ERROR: Unable to download webpage''))"
    by (simp only: m)
  show ?thesis
    using v p d s g by simp
qed

text \<open>
  The claim C7 fails for a failed download: the details are the message that
  \<^verbatim>\<open>downloadYoutube\<close> wraps around the message of the error of ytdl-core.
\<close>

theorem details_are_not_the_message:
  "getInfo env_unavailable (JStr ''https://youtu.be/abc'') = Some (new_Error ''Video unavailable'')
   \<and> err_message (new_Error ''Video unavailable'') = ''Video unavailable''
   \<and> payload (fst (transcribe_handler env_unavailable ''r1'' youtube_request w0)) =
       Json (JObj [(''error'', JStr ''Transcription failed''),
         (''details'', JStr ''YouTube download failed: Video unavailable''), (''hint'', JUndefined)])"
proof -
  let ?url = "body_field (body youtube_request) ''youtubeUrl''"
  have u: "truthy ?url" and url: "?url = JStr ''https://youtu.be/abc''"
    by (simp_all add: youtube_request_def body_field_def js_or_def)
  have 1: "getInfo env_unavailable (JStr ''https://youtu.be/abc'') = Some (new_Error ''Video unavailable'')"
    by (simp add: env_unavailable_def env_ok_def)
  have 2: "err_message (new_Error ''Video unavailable'') = ''Video unavailable''"
    by (simp add: new_Error_def)
  have v: "validateURL env_unavailable ?url"
    and p: "primary_error env_unavailable ?url = Some (new_Error ''Video unavailable'')"
    and y: "ytdlp env_unavailable = None"
    by (simp_all add: env_unavailable_def env_ok_def primary_error_def)
  have m: "message_or_string (new_Error ''Video unavailable'') = ''Video unavailable''"
    by (simp add: message_or_string_def new_Error_def)
  have "fst (downloadYoutube env_unavailable ?url ''r1'' w0) =
      Inl (new_Error (''YouTube download failed: '' @ ''Video unavailable''))"
    using download_no_fallback [OF v p y, of "''r1''" w0] video_unavailable_no_decipher
    by (simp only: m if_False)
  then have "fst (transcribe_try env_unavailable ''r1'' ?url (file_path youtube_request) initial_locals w0) =
      Inl (new_Error (''YouTube download failed: '' @ ''Video unavailable''))"
    using u by (simp only: try_fst if_True sum.case)
  then have 3: "payload (fst (transcribe_handler env_unavailable ''r1'' youtube_request w0)) =
       Json (JObj [(''error'', JStr ''Transcription failed''),
         (''details'', JStr ''YouTube download failed: Video unavailable''), (''hint'', JUndefined)])"
    by (simp add: handler_fst respond_fst transcribe_catch_def Let_def message_or_string_def
        new_Error_def)
  show ?thesis
    using 1 2 3 by simp
qed

section \<open>Properties of \<^verbatim>\<open>POST /api/qa\<close>\<close>

lemma user_prompt_strings:
  "user_prompt (JStr ts) (JStr qs) = Inr (''Transcript:'' @ [LF] @ ts @ [LF, LF] @ ''Question: '' @ qs)"
  by (simp add: user_prompt_def)

lemma qa_status_400:
  "status (fst (qa_handler env b w)) = 400 \<longleftrightarrow>
     \<not> truthy (body_field b ''question'') \<or> \<not> truthy (body_field b ''transcript'')"
  by (simp add: qa_handler_def qa_failed_def Let_def split: sum.splits)

lemma qa_rejected:
  "\<not> truthy (body_field b ''question'') \<or> \<not> truthy (body_field b ''transcript'') \<Longrightarrow>
     snd (qa_handler env b w) = w"
  by (auto simp: qa_handler_def Let_def)

lemma qa_forwarded:
  "truthy (body_field b ''question'') \<Longrightarrow> truthy (body_field b ''transcript'') \<Longrightarrow>
   user_prompt (body_field b ''transcript'') (body_field b ''question'') = Inr prompt \<Longrightarrow>
     filter (\<lambda>e. \<not> console_event e) (new_events w (snd (qa_handler env b w))) =
       [GroqChatCompletion [(''system'', SYSTEM_PROMPT), (''user'', prompt)] ''openai/gpt-oss-20b'']"
  by (simp add: qa_handler_def qa_failed_def Let_def new_events_def split: sum.splits)

lemma qa_answered:
  "truthy (body_field b ''question'') \<Longrightarrow> truthy (body_field b ''transcript'') \<Longrightarrow>
   user_prompt (body_field b ''transcript'') (body_field b ''question'') = Inr prompt \<Longrightarrow>
   groq_chat env [(''system'', SYSTEM_PROMPT), (''user'', prompt)] = Inr c \<Longrightarrow>
     fst (qa_handler env b w) =
       \<lparr>status = 200, headers = [],
        payload = Json (JObj [(''answer'',
          if truthy (completion_content c) then completion_content c else JStr [])])\<rparr>"
  by (simp add: qa_handler_def Let_def completion_answer_def completion_content_def js_or_def)

lemma qa_chat_failed:
  "truthy (body_field b ''question'') \<Longrightarrow> truthy (body_field b ''transcript'') \<Longrightarrow>
   user_prompt (body_field b ''transcript'') (body_field b ''question'') = Inr prompt \<Longrightarrow>
   groq_chat env [(''system'', SYSTEM_PROMPT), (''user'', prompt)] = Inl e \<Longrightarrow>
     fst (qa_handler env b w) =
       \<lparr>status = 500, headers = [],
        payload = Json (JObj [(''error'', JStr ''QA failed''),
          (''details'', JStr (message_or_string e))])\<rparr>"
  by (simp add: qa_handler_def Let_def qa_failed_def)

text \<open>
  C4, as the code has it. The answer has status 400 exactly when \<^verbatim>\<open>question\<close> or
  \<^verbatim>\<open>transcript\<close> is falsy (absent, \<^verbatim>\<open>null\<close>, the empty string, \<^verbatim>\<open>0\<close>,
  \<^verbatim>\<open>false\<close>), and then no request is made. When both are truthy and print as
  text (strings do: the user message is then the transcript followed by the
  question), exactly one chat completion is requested, with the system prompt
  and that user message. If the request returns a completion the answer is
  status 200 with the content of its first choice, or the empty string where
  there is none; if the request fails the answer is status 500 with the error
  \<^verbatim>\<open>QA failed\<close> and, as details, the message of the failure, or the text
  \<^verbatim>\<open>String(err)\<close> when that message is empty.
\<close>

theorem qa_handler_responses:
  "(status (fst (qa_handler env b w)) = 400 \<longleftrightarrow>
      \<not> truthy (body_field b ''question'') \<or> \<not> truthy (body_field b ''transcript''))
   \<and> (status (fst (qa_handler env b w)) = 400 \<longrightarrow> snd (qa_handler env b w) = w)
   \<and> (\<forall>prompt. truthy (body_field b ''question'') \<and> truthy (body_field b ''transcript'')
         \<and> user_prompt (body_field b ''transcript'') (body_field b ''question'') = Inr prompt \<longrightarrow>
        filter (\<lambda>e. \<not> console_event e) (new_events w (snd (qa_handler env b w))) =
          [GroqChatCompletion [(''system'', SYSTEM_PROMPT), (''user'', prompt)] ''openai/gpt-oss-20b'']
        \<and> (\<forall>c. groq_chat env [(''system'', SYSTEM_PROMPT), (''user'', prompt)] = Inr c \<longrightarrow>
              fst (qa_handler env b w) =
                \<lparr>status = 200, headers = [],
                 payload = Json (JObj [(''answer'',
                   if truthy (completion_content c) then completion_content c else JStr [])])\<rparr>)
        \<and> (\<forall>e. groq_chat env [(''system'', SYSTEM_PROMPT), (''user'', prompt)] = Inl e \<longrightarrow>
              fst (qa_handler env b w) =
                \<lparr>status = 500, headers = [],
                 payload = Json (JObj [(''error'', JStr ''QA failed''),
                   (''details'',
                     JStr (if err_message e \<noteq> [] then err_message e else error_toString e))])\<rparr>))
   \<and> (\<forall>ts qs. user_prompt (JStr ts) (JStr qs) =
         Inr (''Transcript:'' @ [LF] @ ts @ [LF, LF] @ ''Question: '' @ qs))"
  using qa_status_400 [of env b w] qa_rejected [of b env w] qa_forwarded [of b _ w env]
    qa_answered [of b _ env _ w] qa_chat_failed [of b _ env _ w, unfolded message_or_string_def] user_prompt_strings
  by (intro conjI allI impI) (simp_all only:, blast+)

theorem qa_handler_responses_witness:
  "truthy (body_field qa_request ''question'') \<and> truthy (body_field qa_request ''transcript'')
   \<and> user_prompt (body_field qa_request ''transcript'') (body_field qa_request ''question'') =
        Inr (''Transcript:'' @ [LF] @ ''Because.'' @ [LF, LF] @ ''Question: '' @ ''Why?'')
   \<and> status (fst (qa_handler env_ok qa_request w0)) \<noteq> 400
   \<and> filter (\<lambda>e. \<not> console_event e) (new_events w0 (snd (qa_handler env_ok qa_request w0))) =
        [GroqChatCompletion [(''system'', SYSTEM_PROMPT),
           (''user'', ''Transcript:'' @ [LF] @ ''Because.'' @ [LF, LF] @ ''Question: '' @ ''Why?'')]
           ''openai/gpt-oss-20b'']
   \<and> fst (qa_handler env_ok qa_request w0) =
        \<lparr>status = 200, headers = [], payload = Json (JObj [(''answer'', JStr ''An answer'')])\<rparr>"
proof -
  let ?prompt = "''Transcript:'' @ [LF] @ ''Because.'' @ [LF, LF] @ ''Question: '' @ ''Why?''"
  let ?c = "JObj [(''choices'', JArr [JObj [(''message'', JObj [(''content'', JStr ''An answer'')])]])]"
  have q: "body_field qa_request ''question'' = JStr ''Why?''"
    and t: "body_field qa_request ''transcript'' = JStr ''Because.''"
    by (simp_all add: qa_request_def body_field_def js_or_def)
  have 1: "truthy (body_field qa_request ''question'')" "truthy (body_field qa_request ''transcript'')"
    by (simp_all add: q t)
  have 2: "user_prompt (body_field qa_request ''transcript'') (body_field qa_request ''question'') =
      Inr ?prompt"
    by (simp only: q t user_prompt_strings)
  have 3: "groq_chat env_ok [(''system'', SYSTEM_PROMPT), (''user'', ?prompt)] = Inr ?c"
    by (simp add: env_ok_def)
  have 4: "completion_content ?c = JStr ''An answer''"
    by (simp add: completion_content_def opt_prop_def)
  note th = qa_handler_responses [of env_ok qa_request w0]
  have 5: "status (fst (qa_handler env_ok qa_request w0)) \<noteq> 400"
    using th 1 by simp
  have 6: "filter (\<lambda>e. \<not> console_event e) (new_events w0 (snd (qa_handler env_ok qa_request w0))) =
      [GroqChatCompletion [(''system'', SYSTEM_PROMPT), (''user'', ?prompt)] ''openai/gpt-oss-20b'']"
    using th 1 2 by simp
  have "fst (qa_handler env_ok qa_request w0) =
      \<lparr>status = 200, headers = [],
       payload = Json (JObj [(''answer'',
         if truthy (completion_content ?c) then completion_content ?c else JStr [])])\<rparr>"
    using th 1 2 3 by simp
  then have 7: "fst (qa_handler env_ok qa_request w0) =
      \<lparr>status = 200, headers = [], payload = Json (JObj [(''answer'', JStr ''An answer'')])\<rparr>"
    by (simp add: 4)
  show ?thesis
    using 1 2 5 6 7 by simp
qed

text \<open>
  The claim C4 fails where the request to the chat completion endpoint fails:
  both fields pass the check and the body has no \<^verbatim>\<open>answer\<close>.
\<close>

theorem qa_no_answer_on_failure:
  "truthy (body_field qa_request ''question'') \<and> truthy (body_field qa_request ''transcript'')
   \<and> fst (qa_handler env_chat_fails qa_request w0) =
        \<lparr>status = 500, headers = [],
         payload = Json (JObj [(''error'', JStr ''QA failed''), (''details'', JStr ''Connection error.'')])\<rparr>
   \<and> \<not> field_present ''answer'' (json_of (payload (fst (qa_handler env_chat_fails qa_request w0))))"
proof -
  have q: "body_field qa_request ''question'' = JStr ''Why?''"
    and t: "body_field qa_request ''transcript'' = JStr ''Because.''"
    by (simp_all add: qa_request_def body_field_def js_or_def)
  have 1: "fst (qa_handler env_chat_fails qa_request w0) =
        \<lparr>status = 500, headers = [],
         payload = Json (JObj [(''error'', JStr ''QA failed''), (''details'', JStr ''Connection error.'')])\<rparr>"
    by (simp add: qa_handler_def q t user_prompt_strings Let_def qa_failed_def env_chat_fails_def
        message_or_string_def new_Error_def)
  show ?thesis
    by (simp add: 1 q t field_present_def)
qed

section \<open>Properties of \<^verbatim>\<open>POST /api/export\<close>\<close>

lemma join_with_cons: "join_with sep ((c # l) # ls) = c # join_with sep (l # ls)"
  by (cases ls) simp_all

lemma join_split_lines: "CR \<notin> set s \<Longrightarrow> join_with [LF] (split_lines s) = s"
proof (induction s)
  case Nil
  then show ?case by simp
next
  case (Cons c cs)
  then have ih: "join_with [LF] (split_lines cs) = cs" and c: "c \<noteq> CR"
    by auto
  obtain l ls where sp: "split_lines cs = l # ls"
    using split_lines_nonempty [of cs] by (cases "split_lines cs") simp_all
  show ?case
  proof (cases "c = LF")
    case True
    then show ?thesis
      using ih c by (simp add: sp)
  next
    case False
    then show ?thesis
      using ih c by (simp add: sp join_with_cons)
  qed
qed

lemma content_types_ok:
  "list_all header_char_ok ''text/plain; charset=utf-8''"
  "list_all header_char_ok ''application/json''"
  "list_all header_char_ok ''text/csv; charset=utf-8''"
  "list_all header_char_ok ''application/pdf''"
  "list_all header_char_ok ''application/vnd.openxmlformats-officedocument.wordprocessingml.document''"
  by code_simp+

lemma attachment_prefix_ok: "list_all header_char_ok ''attachment; filename=''"
  by code_simp

lemma extensions_ok:
  "ext \<in> set [''txt'', ''json'', ''csv'', ''pdf'', ''docx''] \<Longrightarrow> list_all header_char_ok (''.'' @ ext)"
  by (auto simp: header_char_ok_def)

lemma disposition_ok:
  "ext \<in> set [''txt'', ''json'', ''csv'', ''pdf'', ''docx''] \<Longrightarrow>
     list_all header_char_ok (''attachment; filename='' @ name @ ''.'' @ ext) \<longleftrightarrow>
     list_all header_char_ok name"
  using attachment_prefix_ok extensions_ok [of ext]
  by (simp only: list_all_append) simp

lemma attachment_headers_ok:
  assumes "list_all header_char_ok ctype" and "js_toString base = Some name"
    and "ext \<in> set [''txt'', ''json'', ''csv'', ''pdf'', ''docx'']"
    and "list_all header_char_ok name"
  shows "attachment_headers [] ctype base ext =
    Inr [(''Content-Type'', ctype), (''Content-Disposition'', ''attachment; filename='' @ name @ ''.'' @ ext)]"
  using assms(1,2) disposition_ok [OF assms(3), of name] assms(4)
  by (simp add: attachment_headers_def setHeader_def)

lemma attachment_headers_invalid:
  assumes "list_all header_char_ok ctype" and "js_toString base = Some name"
    and "ext \<in> set [''txt'', ''json'', ''csv'', ''pdf'', ''docx'']"
    and "\<not> list_all header_char_ok name"
  shows "attachment_headers [] ctype base ext =
    Inl ([(''Content-Type'', ctype)], INVALID_CHAR ''Content-Disposition'')"
  using assms(1,2) disposition_ok [OF assms(3), of name] assms(4)
  by (simp add: attachment_headers_def setHeader_def)

lemma export_branch:
  assumes "truthy (body_field b ''type'')" and "truthy (body_field b ''content'')"
  shows "export_handler b =
    (if body_field b ''type'' = JStr ''txt''
       then export_txt (js_or (body_field b ''filename'') (JStr ''export'')) (body_field b ''content'')
     else if body_field b ''type'' = JStr ''json''
       then export_json (js_or (body_field b ''filename'') (JStr ''export'')) (body_field b ''content'')
     else if body_field b ''type'' = JStr ''csv''
       then export_csv (js_or (body_field b ''filename'') (JStr ''export'')) (body_field b ''content'')
     else if body_field b ''type'' = JStr ''pdf''
       then export_pdf (js_or (body_field b ''filename'') (JStr ''export'')) (body_field b ''content'')
     else if body_field b ''type'' = JStr ''docx''
       then export_docx (js_or (body_field b ''filename'') (JStr ''export'')) (body_field b ''content'')
     else bad_request ''Unsupported type'')"
  using assms by (simp add: export_handler_def Let_def)

lemma export_supported:
  assumes "body_field b ''type'' = JStr ext"
    and "ext \<in> set [''txt'', ''json'', ''csv'', ''pdf'', ''docx'']"
    and "body_field b ''content'' = JStr s" and "s \<noteq> []"
    and "js_toString (js_or (body_field b ''filename'') (JStr ''export'')) = Some name"
    and "list_all header_char_ok name"
  shows "status (export_handler b) = 200
    \<and> map_of (headers (export_handler b)) ''Content-Disposition'' =
        Some (''attachment; filename='' @ name @ ''.'' @ ext)
    \<and> (ext = ''txt'' \<longrightarrow> payload (export_handler b) = Send (JStr s))
    \<and> (ext = ''json'' \<longrightarrow> payload (export_handler b) = SendJsonStringify (JObj [(''content'', JStr s)]))
    \<and> (ext = ''csv'' \<longrightarrow> payload (export_handler b) = Send (JStr (csv_export s)))
    \<and> (ext = ''pdf'' \<longrightarrow> payload (export_handler b) =
          PdfDocument (js_or (body_field b ''filename'') (JStr ''export'')) (JStr s))
    \<and> (ext = ''docx'' \<longrightarrow> payload (export_handler b) = DocxBuffer (split_lines s))"
proof -
  have tr: "truthy (body_field b ''type'')" "truthy (body_field b ''content'')"
    using assms(1,2,3,4) by auto
  note br = export_branch [OF tr]
  note hs = attachment_headers_ok [OF _ assms(5) _ assms(6)]
  consider "ext = ''txt''" | "ext = ''json''" | "ext = ''csv''" | "ext = ''pdf''" | "ext = ''docx''"
    using assms(2) by auto
  then show ?thesis
  proof cases
    case 1
    then show ?thesis
      using assms(1,3) hs [OF content_types_ok(1), of "''txt''"]
      by (simp add: br export_txt_def)
  next
    case 2
    then show ?thesis
      using assms(1,3) hs [OF content_types_ok(2), of "''json''"]
      by (simp add: br export_json_def)
  next
    case 3
    then show ?thesis
      using assms(1,3) hs [OF content_types_ok(3), of "''csv''"]
      by (simp add: br export_csv_def)
  next
    case 4
    then show ?thesis
      using assms(1,3) hs [OF content_types_ok(4), of "''pdf''"]
      by (simp add: br export_pdf_def)
  next
    case 5
    then show ?thesis
      using assms(1,3) hs [OF content_types_ok(5), of "''docx''"]
      by (simp add: br export_docx_def Let_def)
  qed
qed

lemma export_invalid_name:
  assumes "body_field b ''type'' = JStr ext"
    and "ext \<in> set [''txt'', ''json'', ''csv'', ''pdf'', ''docx'']"
    and "body_field b ''content'' = JStr s" and "s \<noteq> []"
    and "js_toString (js_or (body_field b ''filename'') (JStr ''export'')) = Some name"
    and "\<not> list_all header_char_ok name"
  shows "status (export_handler b) = 500
    \<and> payload (export_handler b) =
        Json (JObj [(''error'', JStr ''Export failed''),
          (''details'', JStr (err_message (INVALID_CHAR ''Content-Disposition'')))])"
proof -
  have tr: "truthy (body_field b ''type'')" "truthy (body_field b ''content'')"
    using assms(1,2,3,4) by auto
  note br = export_branch [OF tr]
  note hs = attachment_headers_invalid [OF _ assms(5) _ assms(6)]
  have m: "message_or_string (INVALID_CHAR ''Content-Disposition'') =
      err_message (INVALID_CHAR ''Content-Disposition'')"
    by (simp add: message_or_string_def INVALID_CHAR_def)
  consider "ext = ''txt''" | "ext = ''json''" | "ext = ''csv''" | "ext = ''pdf''" | "ext = ''docx''"
    using assms(2) by auto
  then show ?thesis
  proof cases
    case 1
    then show ?thesis
      using assms(1,3) hs [OF content_types_ok(1), of "''txt''"]
      by (simp add: br export_txt_def export_failed_def m)
  next
    case 2
    then show ?thesis
      using assms(1,3) hs [OF content_types_ok(2), of "''json''"]
      by (simp add: br export_json_def export_failed_def m)
  next
    case 3
    then show ?thesis
      using assms(1,3) hs [OF content_types_ok(3), of "''csv''"]
      by (simp add: br export_csv_def export_failed_def m)
  next
    case 4
    then show ?thesis
      using assms(1,3) hs [OF content_types_ok(4), of "''pdf''"]
      by (simp add: br export_pdf_def export_failed_def m)
  next
    case 5
    then show ?thesis
      using assms(1,3) hs [OF content_types_ok(5), of "''docx''"]
      by (simp add: br export_docx_def Let_def export_failed_def m)
  qed
qed

lemma export_missing:
  "\<not> truthy (body_field b ''type'') \<or> \<not> truthy (body_field b ''content'') \<Longrightarrow>
     export_handler b = \<lparr>status = 400, headers = [],
       payload = Json (JObj [(''error'', JStr (''Missing 'type' or 'content'' @ [CHR 0x27]))])\<rparr>"
  by (auto simp: export_handler_def Let_def bad_request_def)

lemma export_unsupported:
  "truthy (body_field b ''type'') \<Longrightarrow> truthy (body_field b ''content'') \<Longrightarrow>
   body_field b ''type'' \<notin> set (map JStr [''txt'', ''json'', ''csv'', ''pdf'', ''docx'']) \<Longrightarrow>
     export_handler b = \<lparr>status = 400, headers = [],
       payload = Json (JObj [(''error'', JStr ''Unsupported type'')])\<rparr>"
  by (simp add: export_handler_def Let_def bad_request_def)

text \<open>
  C6, as the code has it. The export answers with status 400 and
  \<^verbatim>\<open>Missing 'type' or 'content'\<close> when \<^verbatim>\<open>type\<close> or \<^verbatim>\<open>content\<close> is missing
  (falsy); when both are there, with status 400 and \<^verbatim>\<open>Unsupported type\<close> for
  every type other than the five supported ones. For a supported type, a text
  content and a filename (or \<^verbatim>\<open>export\<close> without one) that prints as a name
  whose characters a header value may hold, it answers with status 200, the
  header \<^verbatim>\<open>Content-Disposition\<close> naming the attachment after the name and the
  type, and the text in that format: the text itself; the JSON text of the
  object holding it; the CSV text, one quoted record per line, from which the
  lines are read back; the PDF document titled with the name; the document
  whose paragraphs are the lines of the text. For a name with another character
  (a line feed, say) \<^verbatim>\<open>res.setHeader\<close> throws and the answer is status 500 with
  the error \<^verbatim>\<open>Export failed\<close>.
\<close>

theorem export_handler_responses:
  "(\<not> truthy (body_field b ''type'') \<or> \<not> truthy (body_field b ''content'') \<longrightarrow>
      export_handler b = \<lparr>status = 400, headers = [],
        payload = Json (JObj [(''error'', JStr (''Missing 'type' or 'content'' @ [CHR 0x27]))])\<rparr>)
   \<and> (truthy (body_field b ''type'') \<and> truthy (body_field b ''content'')
       \<and> body_field b ''type'' \<notin> set (map JStr [''txt'', ''json'', ''csv'', ''pdf'', ''docx'']) \<longrightarrow>
      export_handler b = \<lparr>status = 400, headers = [],
        payload = Json (JObj [(''error'', JStr ''Unsupported type'')])\<rparr>)
   \<and> (\<forall>ext s name.
        body_field b ''type'' = JStr ext \<and> ext \<in> set [''txt'', ''json'', ''csv'', ''pdf'', ''docx'']
        \<and> body_field b ''content'' = JStr s \<and> s \<noteq> []
        \<and> js_toString (js_or (body_field b ''filename'') (JStr ''export'')) = Some name
        \<and> list_all header_char_ok name \<longrightarrow>
          status (export_handler b) = 200
          \<and> map_of (headers (export_handler b)) ''Content-Disposition'' =
              Some (''attachment; filename='' @ name @ ''.'' @ ext)
          \<and> (ext = ''txt'' \<longrightarrow> payload (export_handler b) = Send (JStr s))
          \<and> (ext = ''json'' \<longrightarrow>
                payload (export_handler b) = SendJsonStringify (JObj [(''content'', JStr s)]))
          \<and> (ext = ''csv'' \<longrightarrow>
                payload (export_handler b) =
                  Send (JStr (join_with [LF] (map quote_line (split_lines s))))
                \<and> map unquote_record
                    (split_lines (join_with [LF] (map quote_line (split_lines s)))) =
                  split_lines s)
          \<and> (ext = ''pdf'' \<longrightarrow>
                payload (export_handler b) =
                  PdfDocument (js_or (body_field b ''filename'') (JStr ''export'')) (JStr s))
          \<and> (ext = ''docx'' \<longrightarrow>
                payload (export_handler b) = DocxBuffer (split_lines s)
                \<and> (\<forall>l \<in> set (split_lines s). LF \<notin> set l)
                \<and> (CR \<notin> set s \<longrightarrow> join_with [LF] (split_lines s) = s)))
   \<and> (\<forall>ext s name.
        body_field b ''type'' = JStr ext \<and> ext \<in> set [''txt'', ''json'', ''csv'', ''pdf'', ''docx'']
        \<and> body_field b ''content'' = JStr s \<and> s \<noteq> []
        \<and> js_toString (js_or (body_field b ''filename'') (JStr ''export'')) = Some name
        \<and> \<not> list_all header_char_ok name \<longrightarrow>
          status (export_handler b) = 500
          \<and> payload (export_handler b) =
              Json (JObj [(''error'', JStr ''Export failed''),
                (''details'', JStr (''Invalid character in header content [''
                   @ [DQ] @ ''Content-Disposition'' @ [DQ] @ '']''))]))
   \<and> (\<not> truthy (body_field b ''filename'') \<longrightarrow>
        js_toString (js_or (body_field b ''filename'') (JStr ''export'')) = Some ''export'')
   \<and> (\<forall>n. body_field b ''filename'' = JStr n \<and> n \<noteq> [] \<longrightarrow>
        js_toString (js_or (body_field b ''filename'') (JStr ''export'')) = Some n)"
proof -
  have csv: "csv_export s = join_with [LF] (map quote_line (split_lines s))" for s
    by (simp add: csv_export_def csv_records_def)
  have rt: "map unquote_record (split_lines (join_with [LF] (map quote_line (split_lines s)))) =
      split_lines s" for s
    using split_csv_export [of s] by (simp add: csv csv_records_def unquote_quote comp_def)
  have lines: "\<forall>l \<in> set (split_lines s). LF \<notin> set l" for s
    using no_LF_lines by blast
  have 1: "export_handler b = \<lparr>status = 400, headers = [],
        payload = Json (JObj [(''error'', JStr (''Missing 'type' or 'content'' @ [CHR 0x27]))])\<rparr>"
    if "\<not> truthy (body_field b ''type'') \<or> \<not> truthy (body_field b ''content'')"
    using that by (rule export_missing)
  have 2: "export_handler b = \<lparr>status = 400, headers = [],
        payload = Json (JObj [(''error'', JStr ''Unsupported type'')])\<rparr>"
    if "truthy (body_field b ''type'') \<and> truthy (body_field b ''content'')
       \<and> body_field b ''type'' \<notin> set (map JStr [''txt'', ''json'', ''csv'', ''pdf'', ''docx''])"
    using that by (elim conjE) (rule export_unsupported)
  have 3: "status (export_handler b) = 200
      \<and> map_of (headers (export_handler b)) ''Content-Disposition'' =
          Some (''attachment; filename='' @ name @ ''.'' @ ext)
      \<and> (ext = ''txt'' \<longrightarrow> payload (export_handler b) = Send (JStr s))
      \<and> (ext = ''json'' \<longrightarrow>
            payload (export_handler b) = SendJsonStringify (JObj [(''content'', JStr s)]))
      \<and> (ext = ''csv'' \<longrightarrow>
            payload (export_handler b) =
              Send (JStr (join_with [LF] (map quote_line (split_lines s))))
            \<and> map unquote_record
                (split_lines (join_with [LF] (map quote_line (split_lines s)))) =
              split_lines s)
      \<and> (ext = ''pdf'' \<longrightarrow>
            payload (export_handler b) =
              PdfDocument (js_or (body_field b ''filename'') (JStr ''export'')) (JStr s))
      \<and> (ext = ''docx'' \<longrightarrow>
            payload (export_handler b) = DocxBuffer (split_lines s)
            \<and> (\<forall>l \<in> set (split_lines s). LF \<notin> set l)
            \<and> (CR \<notin> set s \<longrightarrow> join_with [LF] (split_lines s) = s))"
    if "body_field b ''type'' = JStr ext \<and> ext \<in> set [''txt'', ''json'', ''csv'', ''pdf'', ''docx'']
        \<and> body_field b ''content'' = JStr s \<and> s \<noteq> []
        \<and> js_toString (js_or (body_field b ''filename'') (JStr ''export'')) = Some name
        \<and> list_all header_char_ok name" for ext s name
  proof -
    from that have r: "status (export_handler b) = 200
      \<and> map_of (headers (export_handler b)) ''Content-Disposition'' =
          Some (''attachment; filename='' @ name @ ''.'' @ ext)
      \<and> (ext = ''txt'' \<longrightarrow> payload (export_handler b) = Send (JStr s))
      \<and> (ext = ''json'' \<longrightarrow> payload (export_handler b) = SendJsonStringify (JObj [(''content'', JStr s)]))
      \<and> (ext = ''csv'' \<longrightarrow> payload (export_handler b) = Send (JStr (csv_export s)))
      \<and> (ext = ''pdf'' \<longrightarrow> payload (export_handler b) =
            PdfDocument (js_or (body_field b ''filename'') (JStr ''export'')) (JStr s))
      \<and> (ext = ''docx'' \<longrightarrow> payload (export_handler b) = DocxBuffer (split_lines s))"
      by (elim conjE) (rule export_supported)
    show ?thesis
      using r rt [of s] lines [of s] join_split_lines [of s] by (simp only: csv) blast
  qed
  have 4: "status (export_handler b) = 500
      \<and> payload (export_handler b) =
          Json (JObj [(''error'', JStr ''Export failed''),
            (''details'', JStr (''Invalid character in header content [''
               @ [DQ] @ ''Content-Disposition'' @ [DQ] @ '']''))])"
    if "body_field b ''type'' = JStr ext \<and> ext \<in> set [''txt'', ''json'', ''csv'', ''pdf'', ''docx'']
        \<and> body_field b ''content'' = JStr s \<and> s \<noteq> []
        \<and> js_toString (js_or (body_field b ''filename'') (JStr ''export'')) = Some name
        \<and> \<not> list_all header_char_ok name" for ext s name
  proof -
    have m: "err_message (INVALID_CHAR ''Content-Disposition'') =
        ''Invalid character in header content ['' @ [DQ] @ ''Content-Disposition'' @ [DQ] @ '']''"
      by (simp add: INVALID_CHAR_def)
    from that show ?thesis
      unfolding m [symmetric] by (elim conjE) (rule export_invalid_name)
  qed
  have 5: "js_toString (js_or (body_field b ''filename'') (JStr ''export'')) = Some ''export''"
    if "\<not> truthy (body_field b ''filename'')"
    using that by (simp add: js_or_def)
  have 6: "js_toString (js_or (body_field b ''filename'') (JStr ''export'')) = Some n"
    if "body_field b ''filename'' = JStr n \<and> n \<noteq> []" for n
    using that by (simp add: js_or_def)
  show ?thesis
    apply (rule conjI, rule impI, erule 1)
    apply (rule conjI, rule impI, erule 2)
    apply (rule conjI, (rule allI)+, rule impI, erule 3)
    apply (rule conjI, (rule allI)+, rule impI, erule 4)
    apply (rule conjI, rule impI, erule 5)
    apply ((rule allI)+, rule impI, erule 6)
    done
qed

theorem export_handler_responses_witness:
  "export_handler (JObj [(''type'', JStr ''csv'')]) =
     \<lparr>status = 400, headers = [],
      payload = Json (JObj [(''error'', JStr (''Missing 'type' or 'content'' @ [CHR 0x27]))])\<rparr>
   \<and> export_handler (JObj [(''type'', JStr ''xml''), (''content'', JStr ''a'')]) =
     \<lparr>status = 400, headers = [], payload = Json (JObj [(''error'', JStr ''Unsupported type'')])\<rparr>
   \<and> status (export_handler export_request) = 200
   \<and> map_of (headers (export_handler export_request)) ''Content-Disposition'' =
        Some (''attachment; filename='' @ ''notes'' @ ''.'' @ ''csv'')
   \<and> payload (export_handler export_request) =
        Send (JStr (join_with [LF] (map quote_line (split_lines [CHR ''a'', LF, CHR ''b'']))))
   \<and> map_of (headers (export_handler (JObj [(''type'', JStr ''txt''), (''content'', JStr ''a'')])))
        ''Content-Disposition'' = Some (''attachment; filename='' @ ''export'' @ ''.'' @ ''txt'')"
proof -
  let ?b1 = "JObj [(''type'', JStr ''csv'')]"
  let ?b2 = "JObj [(''type'', JStr ''xml''), (''content'', JStr ''a'')]"
  let ?b3 = "JObj [(''type'', JStr ''txt''), (''content'', JStr ''a'')]"
  have 1: "\<not> truthy (body_field ?b1 ''type'') \<or> \<not> truthy (body_field ?b1 ''content'')"
    by (simp add: body_field_def js_or_def)
  have 2: "truthy (body_field ?b2 ''type'') \<and> truthy (body_field ?b2 ''content'')
       \<and> body_field ?b2 ''type'' \<notin> set (map JStr [''txt'', ''json'', ''csv'', ''pdf'', ''docx''])"
    by (simp add: body_field_def js_or_def)
  have 3: "body_field export_request ''type'' = JStr ''csv''
      \<and> ''csv'' \<in> set [''txt'', ''json'', ''csv'', ''pdf'', ''docx'']
      \<and> body_field export_request ''content'' = JStr [CHR ''a'', LF, CHR ''b'']
      \<and> [CHR ''a'', LF, CHR ''b''] \<noteq> []
      \<and> js_toString (js_or (body_field export_request ''filename'') (JStr ''export'')) = Some ''notes''
      \<and> list_all header_char_ok ''notes''"
    by (simp add: export_request_def body_field_def js_or_def header_char_ok_def)
  have 4: "body_field ?b3 ''type'' = JStr ''txt''
      \<and> ''txt'' \<in> set [''txt'', ''json'', ''csv'', ''pdf'', ''docx'']
      \<and> body_field ?b3 ''content'' = JStr ''a'' \<and> ''a'' \<noteq> []
      \<and> js_toString (js_or (body_field ?b3 ''filename'') (JStr ''export'')) = Some ''export''
      \<and> list_all header_char_ok ''export''"
    by (simp add: body_field_def js_or_def header_char_ok_def)
  have a: "export_handler ?b1 = \<lparr>status = 400, headers = [],
      payload = Json (JObj [(''error'', JStr (''Missing 'type' or 'content'' @ [CHR 0x27]))])\<rparr>"
    using export_handler_responses [of ?b1] 1 by (elim conjE) (erule mp)
  have b: "export_handler ?b2 =
     \<lparr>status = 400, headers = [], payload = Json (JObj [(''error'', JStr ''Unsupported type'')])\<rparr>"
    using export_handler_responses [of ?b2] 2 by (elim conjE) (erule mp, intro conjI)
  have c: "status (export_handler export_request) = 200
      \<and> map_of (headers (export_handler export_request)) ''Content-Disposition'' =
          Some (''attachment; filename='' @ ''notes'' @ ''.'' @ ''csv'')
      \<and> payload (export_handler export_request) =
          Send (JStr (join_with [LF] (map quote_line (split_lines [CHR ''a'', LF, CHR ''b'']))))"
    using export_handler_responses [of export_request] 3 by blast
  have d: "map_of (headers (export_handler ?b3)) ''Content-Disposition'' =
      Some (''attachment; filename='' @ ''export'' @ ''.'' @ ''txt'')"
    using export_handler_responses [of ?b3] 4 by blast
  show ?thesis
    using a b c d by simp
qed

text \<open>
  The claim C6 fails for a filename with a line feed: the type is supported and
  the content is a text, yet the answer is status 500 and no attachment.
\<close>

theorem export_fails_on_line_feed:
  "body_field bad_name_request ''type'' = JStr ''txt''
   \<and> body_field bad_name_request ''content'' = JStr ''a''
   \<and> body_field bad_name_request ''filename'' = JStr [CHR ''m'', CHR ''y'', LF, CHR ''n'']
   \<and> export_handler bad_name_request =
       \<lparr>status = 500, headers = [(''Content-Type'', ''text/plain; charset=utf-8'')],
        payload = Json (JObj [(''error'', JStr ''Export failed''),
          (''details'', JStr (''Invalid character in header content [''
             @ [DQ] @ ''Content-Disposition'' @ [DQ] @ '']''))])\<rparr>"
proof -
  have f: "body_field bad_name_request ''type'' = JStr ''txt''"
    "body_field bad_name_request ''content'' = JStr ''a''"
    "body_field bad_name_request ''filename'' = JStr [CHR ''m'', CHR ''y'', LF, CHR ''n'']"
    by (simp_all add: bad_name_request_def body_field_def js_or_def)
  have bad: "\<not> list_all header_char_ok [CHR ''m'', CHR ''y'', LF, CHR ''n'']"
    by (simp add: header_char_ok_def LF_def)
  have tr: "truthy (body_field bad_name_request ''type'')" "truthy (body_field bad_name_request ''content'')"
    by (simp_all add: f)
  have h: "attachment_headers [] ''text/plain; charset=utf-8''
      (js_or (body_field bad_name_request ''filename'') (JStr ''export'')) ''txt'' =
      Inl ([(''Content-Type'', ''text/plain; charset=utf-8'')], INVALID_CHAR ''Content-Disposition'')"
    by (rule attachment_headers_invalid [OF content_types_ok(1) _ _ bad])
       (simp_all add: f js_or_def)
  have "export_handler bad_name_request =
      export_failed [(''Content-Type'', ''text/plain; charset=utf-8'')] (INVALID_CHAR ''Content-Disposition'')"
    by (simp add: export_branch [OF tr] f(1) export_txt_def h)
  then have "export_handler bad_name_request =
       \<lparr>status = 500, headers = [(''Content-Type'', ''text/plain; charset=utf-8'')],
        payload = Json (JObj [(''error'', JStr ''Export failed''),
          (''details'', JStr (''Invalid character in header content [''
             @ [DQ] @ ''Content-Disposition'' @ [DQ] @ '']''))])\<rparr>"
    by (simp add: export_failed_def message_or_string_def INVALID_CHAR_def)
  then show ?thesis
    using f by simp
qed

section \<open>The downloaded file outlives the request\<close>

lemma download_writes:
  assumes "validateURL env url" and "primary_error env url = None"
  shows "rid @ ''.mp4'' \<in> set (files (snd (downloadYoutube env url rid w)))"
proof -
  let ?d = "ytdl_core_download env url (rid @ ''.mp4'') (emit (YtdlValidateURL url) w)"
  have "fst ?d = None"
    using assms(2) by (simp add: ytdl_core_result)
  then have "downloadYoutube env url rid w = (Inr (rid @ ''.mp4''), snd ?d)"
    using assms(1) by (cases ?d) (simp add: downloadYoutube_def Let_def)
  then show ?thesis
    using ytdl_core_writes [OF assms(2)] by simp
qed

lemma pipeline_keeps:
  "g \<in> set (files w) \<Longrightarrow> g \<in> set (files (snd (snd (transcribe_pipeline env rid input l w))))"
  by (simp add: transcribe_pipeline_def convertToWav_def transcribeWithGroq_def Let_def
      write_file_keeps split: tool_result.splits sum.splits)

lemma safeUnlink_keeps:
  "g \<in> set (files w) \<Longrightarrow> p \<noteq> Some g \<Longrightarrow> g \<in> set (files (snd (safeUnlink env p w)))"
  by (auto simp: safeUnlink_eq split: option.splits)

text \<open>
  Whenever ytdl-core served the download, the file \<^verbatim>\<open>`${id}.mp4`\<close> is still in
  the temporary directory after the handler has answered and cleaned up, on
  success and on failure of the later stages (the upload, if any, not being that
  very file).
\<close>

theorem downloaded_file_is_never_removed:
  assumes "truthy (body_field (body req) ''youtubeUrl'')"
    and "validateURL env (body_field (body req) ''youtubeUrl'')"
    and "primary_error env (body_field (body req) ''youtubeUrl'') = None"
    and "file_path req \<noteq> Some (rid @ ''.mp4'')"
  shows "rid @ ''.mp4'' \<in> set (files (snd (snd (transcribe_handler env rid req w))))"
proof -
  let ?url = "body_field (body req) ''youtubeUrl''"
  let ?blk = "transcribe_try env rid ?url (file_path req) initial_locals w"
  let ?l = "fst (snd (transcribe_respond env rid req w))"
  let ?wr = "snd (snd (transcribe_respond env rid req w))"
  obtain w1 where d: "downloadYoutube env ?url rid w = (Inr (rid @ ''.mp4''), w1)"
    using download_primary [OF assms(2,3), of rid w]
    by (cases "downloadYoutube env ?url rid w") simp
  have "rid @ ''.mp4'' \<in> set (files w1)"
    using download_writes [OF assms(2,3), of rid w] d by simp
  then have "rid @ ''.mp4'' \<in> set (files (snd (snd ?blk)))"
    using assms(1) by (simp add: transcribe_try_def d pipeline_keeps)
  then have r: "rid @ ''.mp4'' \<in> set (files ?wr)"
    by (cases ?blk rule: prod_cases3) (auto simp: respond_eq split: sum.splits)
  have m: "mp4Path ?l = None"
    by (rule respond_mp4Path)
  have "wavPath ?l = None \<or> wavPath ?l = Some (rid @ ''.wav'')"
    using try_locals [of env rid ?url "file_path req" initial_locals w]
    by (simp add: respond_locals initial_locals_def)
  then have wv: "wavPath ?l \<noteq> Some (rid @ ''.mp4'')"
    by auto
  have "rid @ ''.mp4'' \<in> set (files (snd (cleanup env ?l (file_path req) ?wr)))"
    using r m wv assms(4) by (simp add: cleanup_snd safeUnlink_keeps)
  then show ?thesis
    by (simp add: handler_world)
qed

theorem downloaded_file_is_never_removed_witness:
  "truthy (body_field (body both_request) ''youtubeUrl'')
   \<and> validateURL env_ffmpeg_fails (body_field (body both_request) ''youtubeUrl'')
   \<and> primary_error env_ffmpeg_fails (body_field (body both_request) ''youtubeUrl'') = None
   \<and> file_path both_request \<noteq> Some (''r1'' @ ''.mp4'')
   \<and> ''r1'' @ ''.mp4'' \<in> set (files (snd (snd (transcribe_handler env_ffmpeg_fails ''r1'' both_request w_upload))))"
proof -
  have 1: "truthy (body_field (body both_request) ''youtubeUrl'')"
    by (simp add: both_request_def body_field_def js_or_def)
  have 2: "validateURL env_ffmpeg_fails (body_field (body both_request) ''youtubeUrl'')"
    by (simp add: env_ffmpeg_fails_def env_ok_def)
  have 3: "primary_error env_ffmpeg_fails (body_field (body both_request) ''youtubeUrl'') = None"
    by (simp add: env_ffmpeg_fails_def env_ok_def primary_error_def)
  have 4: "file_path both_request \<noteq> Some (''r1'' @ ''.mp4'')"
    by (simp add: both_request_def)
  show ?thesis
    using downloaded_file_is_never_removed [OF 1 2 3 4, of w_upload] 1 2 3 4 by simp
qed

end
